theory Spec2Isabelle
  imports Complex_Main
begin

unbundle bit_operations_syntax

section \<open>JavaScript numbers\<close>

text \<open>
  The arrays of \<^verbatim>\<open>utils/maths\<close> and \<^verbatim>\<open>utils/audio\<close> hold IEEE-754 numbers.
  The model keeps the three non-finite values apart and takes every finite value as an
  exact real: rounding, overflow to infinity and the sign of zero are not modelled.
  \<open>undefined\<close>, which JavaScript reads from an index outside an array, turns into
  \<open>NaN\<close> in every arithmetic operation, comparison and typed-array store of the
  code modelled here, so the model reads \<open>NaN\<close> there.
\<close>

datatype jsnum = Num real | NaN | PInf | NInf

instantiation jsnum :: "{plus, uminus, minus, times, inverse}"
begin

fun plus_jsnum :: "jsnum \<Rightarrow> jsnum \<Rightarrow> jsnum" where
  "plus_jsnum (Num a) (Num b) = Num (a + b)"
| "plus_jsnum NaN _ = NaN"
| "plus_jsnum _ NaN = NaN"
| "plus_jsnum PInf NInf = NaN"
| "plus_jsnum NInf PInf = NaN"
| "plus_jsnum PInf _ = PInf"
| "plus_jsnum _ PInf = PInf"
| "plus_jsnum NInf _ = NInf"
| "plus_jsnum _ NInf = NInf"

fun uminus_jsnum :: "jsnum \<Rightarrow> jsnum" where
  "uminus_jsnum (Num a) = Num (- a)"
| "uminus_jsnum NaN = NaN"
| "uminus_jsnum PInf = NInf"
| "uminus_jsnum NInf = PInf"

definition minus_jsnum :: "jsnum \<Rightarrow> jsnum \<Rightarrow> jsnum" where
  "minus_jsnum a b = a + (- b)"

fun times_jsnum :: "jsnum \<Rightarrow> jsnum \<Rightarrow> jsnum" where
  "times_jsnum (Num a) (Num b) = Num (a * b)"
| "times_jsnum NaN _ = NaN"
| "times_jsnum _ NaN = NaN"
| "times_jsnum PInf (Num b) = (if 0 < b then PInf else if b < 0 then NInf else NaN)"
| "times_jsnum NInf (Num b) = (if 0 < b then NInf else if b < 0 then PInf else NaN)"
| "times_jsnum (Num a) PInf = (if 0 < a then PInf else if a < 0 then NInf else NaN)"
| "times_jsnum (Num a) NInf = (if 0 < a then NInf else if a < 0 then PInf else NaN)"
| "times_jsnum PInf PInf = PInf"
| "times_jsnum NInf NInf = PInf"
| "times_jsnum PInf NInf = NInf"
| "times_jsnum NInf PInf = NInf"

fun divide_jsnum :: "jsnum \<Rightarrow> jsnum \<Rightarrow> jsnum" where
  "divide_jsnum (Num a) (Num b) =
     (if b \<noteq> 0 then Num (a / b)
      else if 0 < a then PInf else if a < 0 then NInf else NaN)"
| "divide_jsnum NaN _ = NaN"
| "divide_jsnum _ NaN = NaN"
| "divide_jsnum (Num a) _ = Num 0"
| "divide_jsnum PInf (Num b) = (if 0 \<le> b then PInf else NInf)"
| "divide_jsnum NInf (Num b) = (if 0 \<le> b then NInf else PInf)"
| "divide_jsnum PInf _ = NaN"
| "divide_jsnum NInf _ = NaN"

definition inverse_jsnum :: "jsnum \<Rightarrow> jsnum" where
  "inverse_jsnum a = divide (Num 1) a"

instance ..

end

text \<open>The comparisons \<open><\<close>, \<open>>\<close> and \<open><=\<close>: false as soon as one side is \<open>NaN\<close>.\<close>

fun js_lt :: "jsnum \<Rightarrow> jsnum \<Rightarrow> bool" where
  "js_lt (Num a) (Num b) = (a < b)"
| "js_lt NaN _ = False"
| "js_lt _ NaN = False"
| "js_lt NInf NInf = False"
| "js_lt NInf _ = True"
| "js_lt PInf _ = False"
| "js_lt (Num a) PInf = True"
| "js_lt (Num a) NInf = False"

definition js_gt :: "jsnum \<Rightarrow> jsnum \<Rightarrow> bool" where
  "js_gt a b = js_lt b a"

definition js_le :: "jsnum \<Rightarrow> jsnum \<Rightarrow> bool" where
  "js_le a b = (a \<noteq> NaN \<and> b \<noteq> NaN \<and> \<not> js_lt b a)"

definition Math_max :: "jsnum \<Rightarrow> jsnum \<Rightarrow> jsnum" where
  "Math_max a b = (if a = NaN \<or> b = NaN then NaN else if js_lt a b then b else a)"

definition Math_min :: "jsnum \<Rightarrow> jsnum \<Rightarrow> jsnum" where
  "Math_min a b = (if a = NaN \<or> b = NaN then NaN else if js_lt b a then b else a)"

fun Math_log10 :: "jsnum \<Rightarrow> jsnum" where
  "Math_log10 (Num x) = (if 0 < x then Num (log 10 x) else if x = 0 then NInf else NaN)"
| "Math_log10 PInf = PInf"
| "Math_log10 _ = NaN"

fun Math_log :: "jsnum \<Rightarrow> jsnum" where
  "Math_log (Num x) = (if 0 < x then Num (ln x) else if x = 0 then NInf else NaN)"
| "Math_log PInf = PInf"
| "Math_log _ = NaN"

fun Math_sqrt :: "jsnum \<Rightarrow> jsnum" where
  "Math_sqrt (Num x) = (if 0 \<le> x then Num (sqrt x) else NaN)"
| "Math_sqrt PInf = PInf"
| "Math_sqrt _ = NaN"

fun Math_cos :: "jsnum \<Rightarrow> jsnum" where
  "Math_cos (Num x) = Num (cos x)"
| "Math_cos _ = NaN"

fun Math_sin :: "jsnum \<Rightarrow> jsnum" where
  "Math_sin (Num x) = Num (sin x)"
| "Math_sin _ = NaN"

text \<open>\<open>Math.atan2(y, x)\<close> on finite arguments.\<close>

definition atan2 :: "real \<Rightarrow> real \<Rightarrow> real" where
  "atan2 y x =
     (if 0 < x then arctan (y / x)
      else if x < 0 then (if 0 \<le> y then arctan (y / x) + pi else arctan (y / x) - pi)
      else if 0 < y then pi / 2 else if y < 0 then - (pi / 2) else 0)"

text \<open>
  The exponentiation operator \<open>**\<close> (and \<open>Math.pow\<close>). A negative base with an
  exponent that is not an integer gives \<open>NaN\<close>; any base to the power zero is one.
\<close>

definition pow_fin :: "real \<Rightarrow> real \<Rightarrow> jsnum" where
  "pow_fin x y =
     (if y = 0 then Num 1
      else if 0 < x then Num (x powr y)
      else if x = 0 then (if 0 < y then Num 0 else PInf)
      else if y \<in> \<int> then Num ((if even \<lfloor>y\<rfloor> then 1 else - 1) * ((- x) powr y))
      else NaN)"

fun js_pow :: "jsnum \<Rightarrow> jsnum \<Rightarrow> jsnum" where
  "js_pow (Num x) (Num y) = pow_fin x y"
| "js_pow b (Num y) =
     (if y = 0 then Num 1 else if b = NaN then NaN
      else if y < 0 then Num 0
      else if b = NInf \<and> y \<in> \<int> \<and> odd \<lfloor>y\<rfloor> then NInf else PInf)"
| "js_pow _ NaN = NaN"
| "js_pow NaN _ = NaN"
| "js_pow (Num x) PInf = (if 1 < \<bar>x\<bar> then PInf else if \<bar>x\<bar> = 1 then NaN else Num 0)"
| "js_pow (Num x) NInf = (if 1 < \<bar>x\<bar> then Num 0 else if \<bar>x\<bar> = 1 then NaN else PInf)"
| "js_pow _ PInf = PInf"
| "js_pow _ NInf = Num 0"

definition is_fin :: "jsnum \<Rightarrow> bool" where
  "is_fin a = (case a of Num _ \<Rightarrow> True | _ \<Rightarrow> False)"

section \<open>32-bit integer operators\<close>

text \<open>
  The bitwise operators convert their operands to 32-bit integers; the shift count is
  taken modulo 32. Integer-valued numbers (sizes, indices, counters) are \<open>int\<close>.
\<close>

definition ToInt32 :: "int \<Rightarrow> int" where
  "ToInt32 x = (x + 2 ^ 31) mod 2 ^ 32 - 2 ^ 31"

definition ToUint32 :: "int \<Rightarrow> int" where
  "ToUint32 x = x mod 2 ^ 32"

definition js_shl :: "int \<Rightarrow> int \<Rightarrow> int" where
  "js_shl a s = ToInt32 (ToInt32 a * 2 ^ nat (s mod 32))"

definition js_sar :: "int \<Rightarrow> int \<Rightarrow> int" where
  "js_sar a s = ToInt32 a div 2 ^ nat (s mod 32)"

definition js_shr :: "int \<Rightarrow> int \<Rightarrow> int" where
  "js_shr a s = ToUint32 a div 2 ^ nat (s mod 32)"

definition js_and :: "int \<Rightarrow> int \<Rightarrow> int" where
  "js_and a b = ToInt32 a AND ToInt32 b"

definition js_or :: "int \<Rightarrow> int \<Rightarrow> int" where
  "js_or a b = ToInt32 a OR ToInt32 b"

section \<open>Typed arrays and loops\<close>

text \<open>
  A typed array is a list. A read outside the array gives \<open>undefined\<close> (here
  \<open>NaN\<close>); a write outside the array is dropped. Indices are \<open>int\<close>, since an
  index expression may be negative.
\<close>

definition alen :: "'a list \<Rightarrow> int" where
  "alen xs = int (length xs)"

definition aget :: "jsnum list \<Rightarrow> int \<Rightarrow> jsnum" where
  "aget xs i = (if 0 \<le> i \<and> i < alen xs then xs ! nat i else NaN)"

definition aset :: "jsnum list \<Rightarrow> int \<Rightarrow> jsnum \<Rightarrow> jsnum list" where
  "aset xs i v = (if 0 \<le> i \<and> i < alen xs then xs[nat i := v] else xs)"

text \<open>\<open>new Float64Array(n)\<close> for \<open>n \<ge> 0\<close>: \<open>n\<close> zeros.\<close>

definition zeros :: "int \<Rightarrow> jsnum list" where
  "zeros n = replicate (nat n) (Num 0)"

text \<open>
  \<open>iters a b s\<close> lists the iteration numbers \<open>m = 0, 1, ...\<close> of the loop
  \<open>for (i = a; i < b; i += s)\<close>; in iteration \<open>m\<close> the counter is
  \<open>i = a + m * s\<close>, and a second counter that the loop header advances by \<open>d\<close>
  from \<open>c\<close> is \<open>c + m * d\<close>. Loops are folds over this list. The loop is not
  entered when \<open>b \<le> a\<close>. The strides of the source are the constants 1 and 2 and
  the block length \<open>len\<close> of the two transforms, which is 4 or 8 in the first pass
  and is multiplied by 4 in each later one (lemmas \<open>first_len\<close> and \<open>pass_len\<close>
  below), so no loop is entered with a stride that is not positive.
\<close>

definition iters :: "int \<Rightarrow> int \<Rightarrow> int \<Rightarrow> nat list" where
  "iters a b s = (if a < b then [0..<nat ((b - a + s - 1) div s)] else [])"

section \<open>Errors\<close>

datatype error =
    Error string
  | RangeError
  | Diverges

section \<open>utils/maths: max, isPowerOfTwo\<close>

text \<open>\<open>max(arr)\<close>: value and index of the maximum; throws on an empty array.\<close>

definition max_step :: "jsnum list \<Rightarrow> nat \<Rightarrow> jsnum \<times> int \<Rightarrow> jsnum \<times> int" where
  "max_step arr m acc =
     (let i = 1 + int m in
      if js_gt (aget arr i) (fst acc) then (aget arr i, i) else acc)"

definition max_arr :: "jsnum list \<Rightarrow> error + (jsnum \<times> int)" where
  "max_arr arr =
     (if alen arr = 0 then Inl (Error ''Array must not be empty'')
      else Inr (fold (max_step arr) (iters 1 (alen arr) 1) (aget arr 0, 0)))"

definition isPowerOfTwo :: "int \<Rightarrow> bool" where
  "isPowerOfTwo number = (0 < number \<and> js_and number (number - 1) = 0)"

section \<open>P2FFT: radix-4 FFT for sizes that are a power of two\<close>

record P2FFT =
  p2_size :: int
  p2_csize :: int
  p2_width :: int
  p2_bitrev :: "int list"
  p2_table :: "jsnum list"

text \<open>
  \<open>for (let t = 1; this.size > t; t <<= 1) ++power\<close>. The shift wraps at 32 bits, so
  the loop has no bound of its own: not returning is the value \<open>None\<close>.
\<close>

partial_function (option) power_loop :: "int \<Rightarrow> int \<Rightarrow> int \<Rightarrow> int option" where
  "power_loop sz t pw =
     (if sz > t then power_loop sz (js_shl t 1) (pw + 1) else Some pw)"

definition asets :: "jsnum list \<Rightarrow> (int \<times> jsnum) list \<Rightarrow> jsnum list" where
  "asets xs ws = fold (\<lambda>w a. aset a (fst w) (snd w)) ws xs"

definition table_step :: "int \<Rightarrow> nat \<Rightarrow> jsnum list \<Rightarrow> jsnum list" where
  "table_step sz m tab =
     (let i = 2 * int m;
          angle = pi * real_of_int i / real_of_int sz
      in asets tab [(i, Num (cos angle)), (i + 1, Num (- sin angle))])"

definition bitrev_entry :: "int \<Rightarrow> int \<Rightarrow> int" where
  "bitrev_entry w j =
     fold (\<lambda>m acc.
             let shift = 2 * int m;
                 revShift = w - shift - 2
             in js_or acc (js_shl (js_and (js_shr j shift) 3) revShift))
          (iters 0 w 2) 0"

definition bitrev_table :: "int \<Rightarrow> int list" where
  "bitrev_table w = map (\<lambda>j. bitrev_entry w (int j)) [0..<nat (js_shl 1 w)]"

definition P2FFT_new :: "int \<Rightarrow> error + P2FFT" where
  "P2FFT_new sz0 =
     (let sz = js_or sz0 0 in
      if sz \<le> 1 \<or> \<not> isPowerOfTwo sz
      then Inl (Error ''FFT size must be a power of two larger than 1'')
      else
        (case power_loop sz 1 0 of
           None \<Rightarrow> Inl Diverges
         | Some pw \<Rightarrow>
             let w = (if pw mod 2 = 0 then pw - 1 else pw) in
             Inr \<lparr> p2_size = sz,
                   p2_csize = js_shl sz0 1,
                   p2_width = w,
                   p2_bitrev = bitrev_table w,
                   p2_table = fold (table_step sz) (iters 0 (sz * 2) 2) (zeros (sz * 2)) \<rparr>))"

text \<open>
  \<open>bitrev[t]\<close> is \<open>undefined\<close> outside the table. \<open>data[off + d]\<close> is then
  \<open>undefined\<close> too, while \<open>off >>> 1\<close> is \<open>0\<close>.
\<close>

definition iget :: "int list \<Rightarrow> int \<Rightarrow> int option" where
  "iget xs i = (if 0 \<le> i \<and> i < alen xs then Some (xs ! nat i) else None)"

definition data_at :: "jsnum list \<Rightarrow> int option \<Rightarrow> int \<Rightarrow> jsnum" where
  "data_at xs off d = (case off of None \<Rightarrow> NaN | Some v \<Rightarrow> aget xs (v + d))"

definition shr1 :: "int option \<Rightarrow> int" where
  "shr1 off = (case off of None \<Rightarrow> 0 | Some v \<Rightarrow> js_shr v 1)"

definition singleTransform2 ::
  "jsnum list \<Rightarrow> jsnum list \<Rightarrow> int \<Rightarrow> int option \<Rightarrow> int \<Rightarrow> jsnum list" where
  "singleTransform2 dat out outOff off step =
     (let evenR = data_at dat off 0;
          evenI = data_at dat off 1;
          oddR = data_at dat off step;
          oddI = data_at dat off (step + 1)
      in asets out
           [(outOff, evenR + oddR),
            (outOff + 1, evenI + oddI),
            (outOff + 2, evenR - oddR),
            (outOff + 3, evenI - oddI)])"

definition singleTransform4 ::
  "jsnum list \<Rightarrow> jsnum list \<Rightarrow> int \<Rightarrow> int option \<Rightarrow> int \<Rightarrow> jsnum \<Rightarrow> jsnum list" where
  "singleTransform4 dat out outOff off step iv =
     (let step2 = step * 2;
          step3 = step * 3;
          Ar = data_at dat off 0;
          Ai = data_at dat off 1;
          Br = data_at dat off step;
          Bi = data_at dat off (step + 1);
          Cr = data_at dat off step2;
          Ci = data_at dat off (step2 + 1);
          Dr = data_at dat off step3;
          Di = data_at dat off (step3 + 1);
          T0r = Ar + Cr;
          T0i = Ai + Ci;
          T1r = Ar - Cr;
          T1i = Ai - Ci;
          T2r = Br + Dr;
          T2i = Bi + Di;
          T3r = iv * (Br - Dr);
          T3i = iv * (Bi - Di)
      in asets out
           [(outOff, T0r + T2r),
            (outOff + 1, T0i + T2i),
            (outOff + 2, T1r + T3i),
            (outOff + 3, T1i - T3r),
            (outOff + 4, T0r - T2r),
            (outOff + 5, T0i - T2i),
            (outOff + 6, T1r - T3i),
            (outOff + 7, T1i + T3r)])"

text \<open>One radix-4 butterfly of \<open>_transform4\<close>, at \<open>i\<close> with table index \<open>k\<close>.\<close>

definition butterfly4 ::
  "jsnum list \<Rightarrow> jsnum \<Rightarrow> int \<Rightarrow> int \<Rightarrow> int \<Rightarrow> jsnum list \<Rightarrow> jsnum list" where
  "butterfly4 tab iv quarterLen i k out =
     (let A = i;
          B = A + quarterLen;
          C = B + quarterLen;
          D = C + quarterLen;
          Ar = aget out A;
          Ai = aget out (A + 1);
          Br = aget out B;
          Bi = aget out (B + 1);
          Cr = aget out C;
          Ci = aget out (C + 1);
          Dr = aget out D;
          Di = aget out (D + 1);
          tableBr = aget tab k;
          tableBi = iv * aget tab (k + 1);
          MBr = Br * tableBr - Bi * tableBi;
          MBi = Br * tableBi + Bi * tableBr;
          tableCr = aget tab (2 * k);
          tableCi = iv * aget tab (2 * k + 1);
          MCr = Cr * tableCr - Ci * tableCi;
          MCi = Cr * tableCi + Ci * tableCr;
          tableDr = aget tab (3 * k);
          tableDi = iv * aget tab (3 * k + 1);
          MDr = Dr * tableDr - Di * tableDi;
          MDi = Dr * tableDi + Di * tableDr;
          T0r = Ar + MCr;
          T0i = Ai + MCi;
          T1r = Ar - MCr;
          T1i = Ai - MCi;
          T2r = MBr + MDr;
          T2i = MBi + MDi;
          T3r = iv * (MBr - MDr);
          T3i = iv * (MBi - MDi)
      in asets out
           [(A, T0r + T2r),
            (A + 1, T0i + T2i),
            (B, T1r + T3i),
            (B + 1, T1i - T3r),
            (C, T0r - T2r),
            (C + 1, T0i - T2i),
            (D, T1r - T3i),
            (D + 1, T1i + T3r)])"

text \<open>
  One pass of the loop over \<open>step\<close>: all blocks of length \<open>len\<close>, and in each block
  the butterflies \<open>for (i = outOff, k = 0; i < limit; i += 2, k += step)\<close>.
  \<open>size / step\<close> is an exact division for every plan the constructor builds.
\<close>

definition transform4_pass :: "jsnum list \<Rightarrow> int \<Rightarrow> jsnum \<Rightarrow> int \<Rightarrow> jsnum list \<Rightarrow> jsnum list" where
  "transform4_pass tab sz iv step out =
     (let len = js_shl (sz div step) 1;
          quarterLen = js_shr len 2
      in fold (\<lambda>b out.
                 let outOff = int b * len;
                     limit = outOff + quarterLen - 1
                 in fold (\<lambda>m. butterfly4 tab iv quarterLen (outOff + 2 * int m) (int m * step))
                      (iters outOff limit 2) out)
           (iters 0 sz len) out)"

lemma js_sar_2_less: "2 \<le> step \<Longrightarrow> js_sar step 2 < step"
proof -
  assume s: "2 \<le> step"
  have "(step + 2 ^ 31) mod 2 ^ 32 \<le> step + 2 ^ 31"
    using s by (intro zmod_le_nonneg_dividend) simp
  then have "ToInt32 step \<le> step"
    by (simp add: ToInt32_def)
  then have "ToInt32 step div 4 \<le> step div 4"
    by (intro zdiv_mono1) simp_all
  also have "step div 4 < step"
    using s by simp
  finally show ?thesis
    by (simp add: js_sar_def)
qed

function transform4_passes :: "jsnum list \<Rightarrow> int \<Rightarrow> jsnum \<Rightarrow> int \<Rightarrow> jsnum list \<Rightarrow> jsnum list" where
  "transform4_passes tab sz iv step out =
     (if 2 \<le> step
      then transform4_passes tab sz iv (js_sar step 2) (transform4_pass tab sz iv step out)
      else out)"
  by pat_completeness auto
termination
  by (relation "measure (\<lambda>(tab, sz, iv, step, out). nat step)") (auto simp: js_sar_2_less)

declare transform4_passes.simps [simp del]

definition transform4 :: "P2FFT \<Rightarrow> jsnum list \<Rightarrow> jsnum list \<Rightarrow> jsnum \<Rightarrow> jsnum list" where
  "transform4 p out dat iv =
     (let sz = p2_csize p;
          w = p2_width p;
          step = js_shl 1 w;
          len = js_shl (sz div step) 1;
          brev = p2_bitrev p;
          out1 =
            (if len = 4
             then fold (\<lambda>t out. singleTransform2 dat out (int t * len) (iget brev (int t)) step)
                    (iters 0 sz len) out
             else fold (\<lambda>t out. singleTransform4 dat out (int t * len) (iget brev (int t)) step iv)
                    (iters 0 sz len) out)
      in transform4_passes (p2_table p) sz iv (js_sar step 2) out1)"

definition singleRealTransform2 ::
  "jsnum list \<Rightarrow> jsnum list \<Rightarrow> int \<Rightarrow> int \<Rightarrow> int \<Rightarrow> jsnum list" where
  "singleRealTransform2 dat out outOff off step =
     (let evenR = aget dat off;
          oddR = aget dat (off + step)
      in asets out
           [(outOff, evenR + oddR),
            (outOff + 1, Num 0),
            (outOff + 2, evenR - oddR),
            (outOff + 3, Num 0)])"

definition singleRealTransform4 ::
  "jsnum list \<Rightarrow> jsnum list \<Rightarrow> int \<Rightarrow> int \<Rightarrow> int \<Rightarrow> jsnum \<Rightarrow> jsnum list" where
  "singleRealTransform4 dat out outOff off step iv =
     (let step2 = step * 2;
          step3 = step * 3;
          Ar = aget dat off;
          Br = aget dat (off + step);
          Cr = aget dat (off + step2);
          Dr = aget dat (off + step3);
          T0r = Ar + Cr;
          T1r = Ar - Cr;
          T2r = Br + Dr;
          T3r = iv * (Br - Dr)
      in asets out
           [(outOff, T0r + T2r),
            (outOff + 1, Num 0),
            (outOff + 2, T1r),
            (outOff + 3, - T3r),
            (outOff + 4, T0r - T2r),
            (outOff + 5, Num 0),
            (outOff + 6, T1r),
            (outOff + 7, T3r)])"

text \<open>
  One butterfly of \<open>_realTransform4\<close>, at offset \<open>i\<close> of the block at \<open>outOff\<close>. The
  two \<open>continue\<close> statements are the two early results.
\<close>

definition realButterfly4 ::
  "jsnum list \<Rightarrow> jsnum \<Rightarrow> int \<Rightarrow> int \<Rightarrow> int \<Rightarrow> int \<Rightarrow> int \<Rightarrow> int \<Rightarrow> jsnum list \<Rightarrow> jsnum list" where
  "realButterfly4 tab iv outOff halfLen quarterLen hquarterLen i k out =
     (let A = outOff + i;
          B = A + quarterLen;
          C = B + quarterLen;
          D = C + quarterLen;
          Ar = aget out A;
          Ai = aget out (A + 1);
          Br = aget out B;
          Bi = aget out (B + 1);
          Cr = aget out C;
          Ci = aget out (C + 1);
          Dr = aget out D;
          Di = aget out (D + 1);
          MAr = Ar;
          MAi = Ai;
          tableBr = aget tab k;
          tableBi = iv * aget tab (k + 1);
          MBr = Br * tableBr - Bi * tableBi;
          MBi = Br * tableBi + Bi * tableBr;
          tableCr = aget tab (2 * k);
          tableCi = iv * aget tab (2 * k + 1);
          MCr = Cr * tableCr - Ci * tableCi;
          MCi = Cr * tableCi + Ci * tableCr;
          tableDr = aget tab (3 * k);
          tableDi = iv * aget tab (3 * k + 1);
          MDr = Dr * tableDr - Di * tableDi;
          MDi = Dr * tableDi + Di * tableDr;
          T0r = MAr + MCr;
          T0i = MAi + MCi;
          T1r = MAr - MCr;
          T1i = MAi - MCi;
          T2r = MBr + MDr;
          T2i = MBi + MDi;
          T3r = iv * (MBr - MDr);
          T3i = iv * (MBi - MDi);
          out1 = asets out
                   [(A, T0r + T2r),
                    (A + 1, T0i + T2i),
                    (B, T1r + T3i),
                    (B + 1, T1i - T3r)]
      in if i = 0 then asets out1 [(C, T0r - T2r), (C + 1, T0i - T2i)]
         else if i = hquarterLen then out1
         else
           (let SA = outOff + quarterLen - i;
                SB = outOff + halfLen - i
            in asets out1
                 [(SA, T1r - iv * T3i),
                  (SA + 1, - T1i - iv * T3r),
                  (SB, T0r - iv * T2r),
                  (SB + 1, - T0i + iv * T2i)]))"

definition realTransform4_pass ::
  "jsnum list \<Rightarrow> int \<Rightarrow> jsnum \<Rightarrow> int \<Rightarrow> jsnum list \<Rightarrow> jsnum list" where
  "realTransform4_pass tab sz iv step out =
     (let len = js_shl (sz div step) 1;
          halfLen = js_shr len 1;
          quarterLen = js_shr halfLen 1;
          hquarterLen = js_shr quarterLen 1
      in fold (\<lambda>b out.
                 let outOff = int b * len
                 in fold (\<lambda>m. realButterfly4 tab iv outOff halfLen quarterLen hquarterLen
                                 (2 * int m) (int m * step))
                      (iters 0 (hquarterLen + 1) 2) out)
           (iters 0 sz len) out)"

function realTransform4_passes ::
  "jsnum list \<Rightarrow> int \<Rightarrow> jsnum \<Rightarrow> int \<Rightarrow> jsnum list \<Rightarrow> jsnum list" where
  "realTransform4_passes tab sz iv step out =
     (if 2 \<le> step
      then realTransform4_passes tab sz iv (js_sar step 2) (realTransform4_pass tab sz iv step out)
      else out)"
  by pat_completeness auto
termination
  by (relation "measure (\<lambda>(tab, sz, iv, step, out). nat step)") (auto simp: js_sar_2_less)

declare realTransform4_passes.simps [simp del]

text \<open>The last loop of \<open>_realTransform4\<close>: the mirrored negative frequencies.\<close>

definition mirror_step :: "int \<Rightarrow> nat \<Rightarrow> jsnum list \<Rightarrow> jsnum list" where
  "mirror_step sz m out =
     (let i = 2 + 2 * int m;
          out1 = aset out (sz - i) (aget out i)
      in aset out1 (sz - i + 1) (- aget out1 (i + 1)))"

definition realTransform4 :: "P2FFT \<Rightarrow> jsnum list \<Rightarrow> jsnum list \<Rightarrow> jsnum \<Rightarrow> jsnum list" where
  "realTransform4 p out dat iv =
     (let sz = p2_csize p;
          w = p2_width p;
          step = js_shl 1 w;
          len = js_shl (sz div step) 1;
          brev = p2_bitrev p;
          out1 =
            (if len = 4
             then fold (\<lambda>t out. singleRealTransform2 dat out (int t * len)
                                  (shr1 (iget brev (int t))) (js_shr step 1))
                    (iters 0 sz len) out
             else fold (\<lambda>t out. singleRealTransform4 dat out (int t * len)
                                  (shr1 (iget brev (int t))) (js_shr step 1) iv)
                    (iters 0 sz len) out);
          out2 = realTransform4_passes (p2_table p) sz iv (js_sar step 2) out1;
          half = js_shr sz 1
      in fold (mirror_step sz) (iters 2 half 2) out2)"

subsection \<open>The public methods, on a store of buffers\<close>

text \<open>
  \<open>transform\<close>, \<open>realTransform\<close> and \<open>inverseTransform\<close> compare their two buffers
  by identity (\<open>out === data\<close>), so buffers live in a store and the methods take
  references.
\<close>

type_synonym ref = nat
type_synonym heap = "ref \<Rightarrow> jsnum list"

definition P2FFT_transform :: "P2FFT \<Rightarrow> heap \<Rightarrow> ref \<Rightarrow> ref \<Rightarrow> error + heap" where
  "P2FFT_transform p h out dat =
     (if out = dat then Inl (Error ''Input and output buffers must be different'')
      else Inr (h(out := transform4 p (h out) (h dat) (Num 1))))"

definition P2FFT_realTransform :: "P2FFT \<Rightarrow> heap \<Rightarrow> ref \<Rightarrow> ref \<Rightarrow> error + heap" where
  "P2FFT_realTransform p h out dat =
     (if out = dat then Inl (Error ''Input and output buffers must be different'')
      else Inr (h(out := realTransform4 p (h out) (h dat) (Num 1))))"

definition scale_step :: "int \<Rightarrow> nat \<Rightarrow> jsnum list \<Rightarrow> jsnum list" where
  "scale_step sz m out = aset out (int m) (aget out (int m) / Num (real_of_int sz))"

definition inverseTransform_bufs :: "P2FFT \<Rightarrow> jsnum list \<Rightarrow> jsnum list \<Rightarrow> jsnum list" where
  "inverseTransform_bufs p out dat =
     (let out1 = transform4 p out dat (Num (- 1))
      in fold (scale_step (p2_size p)) (iters 0 (alen out1) 1) out1)"

definition P2FFT_inverseTransform :: "P2FFT \<Rightarrow> heap \<Rightarrow> ref \<Rightarrow> ref \<Rightarrow> error + heap" where
  "P2FFT_inverseTransform p h out dat =
     (if out = dat then Inl (Error ''Input and output buffers must be different'')
      else Inr (h(out := inverseTransform_bufs p (h out) (h dat))))"

section \<open>NP2FFT: chirp-z transform for the other sizes\<close>

record NP2FFT =
  np2_f :: P2FFT
  np2_bufferSize :: int
  np2_a :: int
  np2_chirpBuffer :: "jsnum list"
  np2_buffer1 :: "jsnum list"
  np2_buffer2 :: "jsnum list"
  np2_outBuffer1 :: "jsnum list"
  np2_outBuffer2 :: "jsnum list"
  np2_slicedChirpBuffer :: "jsnum list"

text \<open>
  \<open>2 ** Math.ceil(Math.log2(b))\<close> for \<open>b \<ge> 1\<close>, the logarithm taken exactly: the
  least power of two that is at least \<open>b\<close>.
\<close>

fun next_pow2 :: "nat \<Rightarrow> nat" where
  "next_pow2 n = (if n \<le> 1 then 1 else 2 * next_pow2 ((n + 1) div 2))"

declare next_pow2.simps [simp del]

text \<open>\<open>subarray(begin, end)\<close>: a negative index counts from the end.\<close>

definition rel_index :: "int \<Rightarrow> int \<Rightarrow> int" where
  "rel_index len i = (if i < 0 then max (len + i) 0 else min i len)"

definition subarray :: "'a list \<Rightarrow> int \<Rightarrow> int \<Rightarrow> 'a list" where
  "subarray xs b e =
     (let rb = rel_index (alen xs) b;
          re = rel_index (alen xs) e
      in take (nat (re - rb)) (drop (nat rb) xs))"

text \<open>One iteration of the loop that fills \<open>chirp\<close> and \<open>ichirp\<close>.\<close>

definition chirp_step ::
  "int \<Rightarrow> real \<Rightarrow> real \<Rightarrow> nat \<Rightarrow> jsnum list \<times> jsnum list \<Rightarrow> jsnum list \<times> jsnum list" where
  "chirp_step n baseR baseI m st =
     (let i = int m;
          e = (real_of_int (i + 1 - n)) ^ 2 / 2;
          result_mod = js_pow (Math_sqrt (js_pow (Num baseR) (Num 2) + js_pow (Num baseI) (Num 2))) (Num e);
          result_arg = e * atan2 baseI baseR;
          i2 = 2 * i;
          chirp = asets (fst st)
                    [(i2, result_mod * Num (cos result_arg)),
                     (i2 + 1, result_mod * Num (sin result_arg))];
          ichirp = asets (snd st)
                     [(i2, aget chirp i2),
                      (i2 + 1, - aget chirp (i2 + 1))]
      in (chirp, ichirp))"

definition NP2FFT_new :: "int \<Rightarrow> error + NP2FFT" where
  "NP2FFT_new n =
     (let a = 2 * (n - 1);
          b = 2 * (2 * n - 1)
      in if b < 0 then Inl RangeError
         else
           (let nextP2 = int (next_pow2 (nat b));
                theta = - 2 * pi / real_of_int n;
                baseR = cos theta;
                baseI = sin theta;
                st = fold (chirp_step n baseR baseI) (iters 0 (js_sar b 1) 1)
                       (zeros b, zeros nextP2)
            in case P2FFT_new (js_sar nextP2 1) of
                 Inl e \<Rightarrow> Inl e
               | Inr f \<Rightarrow>
                   Inr \<lparr> np2_f = f,
                         np2_bufferSize = nextP2,
                         np2_a = a,
                         np2_chirpBuffer = transform4 f (zeros nextP2) (snd st) (Num 1),
                         np2_buffer1 = zeros nextP2,
                         np2_buffer2 = zeros nextP2,
                         np2_outBuffer1 = zeros nextP2,
                         np2_outBuffer2 = zeros nextP2,
                         np2_slicedChirpBuffer = subarray (fst st) a b \<rparr>))"

definition real_mult_step :: "jsnum list \<Rightarrow> jsnum list \<Rightarrow> nat \<Rightarrow> jsnum list \<Rightarrow> jsnum list" where
  "real_mult_step sb inp m ib1 =
     (let j = 2 * int m;
          j2 = j + 1;
          j3 = js_sar j 1;
          a_real = aget inp j3
      in asets ib1 [(j, a_real * aget sb j), (j2, a_real * aget sb j2)])"

definition complex_mult_step :: "jsnum list \<Rightarrow> jsnum list \<Rightarrow> nat \<Rightarrow> jsnum list \<Rightarrow> jsnum list" where
  "complex_mult_step sb inp m ib1 =
     (let j = 2 * int m;
          j2 = j + 1
      in asets ib1
           [(j, aget inp j * aget sb j - aget inp j2 * aget sb j2),
            (j2, aget inp j * aget sb j2 + aget inp j2 * aget sb j)])"

definition conv_step :: "jsnum list \<Rightarrow> jsnum list \<Rightarrow> nat \<Rightarrow> jsnum list \<Rightarrow> jsnum list" where
  "conv_step ob2 cb m ib2 =
     (let j = 2 * int m;
          j2 = j + 1
      in asets ib2
           [(j, aget ob2 j * aget cb j - aget ob2 j2 * aget cb j2),
            (j2, aget ob2 j * aget cb j2 + aget ob2 j2 * aget cb j)])"

definition output_step :: "jsnum list \<Rightarrow> jsnum list \<Rightarrow> int \<Rightarrow> nat \<Rightarrow> jsnum list \<Rightarrow> jsnum list" where
  "output_step ob3 sb a m output =
     (let j = 2 * int m;
          a_real = aget ob3 (j + a);
          a_imag = aget ob3 (j + a + 1);
          b_real = aget sb j;
          b_imag = aget sb (j + 1)
      in asets output
           [(j, a_real * b_real - a_imag * b_imag),
            (j + 1, a_real * b_imag + a_imag * b_real)])"

text \<open>
  \<open>_transform(output, input, real)\<close>. The plan's four work buffers are fields that the
  call overwrites, so the plan is returned with them. The input is read only by the
  first loop and the output is written only by the last one.
\<close>

definition NP2FFT_transform_bufs ::
  "NP2FFT \<Rightarrow> jsnum list \<Rightarrow> jsnum list \<Rightarrow> bool \<Rightarrow> NP2FFT \<times> jsnum list" where
  "NP2FFT_transform_bufs p output inp is_real =
     (let cb = np2_chirpBuffer p;
          sb = np2_slicedChirpBuffer p;
          a = np2_a p;
          ib1 = (if is_real
                 then fold (real_mult_step sb inp) (iters 0 (alen sb) 2) (np2_buffer1 p)
                 else fold (complex_mult_step sb inp) (iters 0 (alen sb) 2) (np2_buffer1 p));
          ob2 = transform4 (np2_f p) (np2_outBuffer1 p) ib1 (Num 1);
          ib2 = fold (conv_step ob2 cb) (iters 0 (alen cb) 2) (np2_buffer2 p);
          ob3 = inverseTransform_bufs (np2_f p) (np2_outBuffer2 p) ib2
      in (p\<lparr> np2_buffer1 := ib1, np2_buffer2 := ib2, np2_outBuffer1 := ob2, np2_outBuffer2 := ob3 \<rparr>,
          fold (output_step ob3 sb a) (iters 0 (alen ob3) 2) output))"

definition NP2FFT_transform :: "NP2FFT \<Rightarrow> heap \<Rightarrow> ref \<Rightarrow> ref \<Rightarrow> error + NP2FFT \<times> heap" where
  "NP2FFT_transform p h out dat =
     (let r = NP2FFT_transform_bufs p (h out) (h dat) False
      in Inr (fst r, h(out := snd r)))"

definition NP2FFT_realTransform :: "NP2FFT \<Rightarrow> heap \<Rightarrow> ref \<Rightarrow> ref \<Rightarrow> error + NP2FFT \<times> heap" where
  "NP2FFT_realTransform p h out dat =
     (let r = NP2FFT_transform_bufs p (h out) (h dat) True
      in Inr (fst r, h(out := snd r)))"

section \<open>FFT: the facade\<close>

datatype plan = P2 P2FFT | NP2 NP2FFT

record FFT =
  fft_fft_length :: int
  fft_isPowerOfTwo :: bool
  fft_plan :: plan
  outputBufferSize :: int

definition FFT_new :: "int \<Rightarrow> error + FFT" where
  "FFT_new n =
     (if isPowerOfTwo n
      then (case P2FFT_new n of
              Inl e \<Rightarrow> Inl e
            | Inr p \<Rightarrow> Inr \<lparr> fft_fft_length = n, fft_isPowerOfTwo = True, fft_plan = P2 p,
                              outputBufferSize = 2 * n \<rparr>)
      else (case NP2FFT_new n of
              Inl e \<Rightarrow> Inl e
            | Inr p \<Rightarrow> Inr \<lparr> fft_fft_length = n, fft_isPowerOfTwo = False, fft_plan = NP2 p,
                              outputBufferSize = np2_bufferSize p \<rparr>))"

definition FFT_realTransform :: "FFT \<Rightarrow> heap \<Rightarrow> ref \<Rightarrow> ref \<Rightarrow> error + FFT \<times> heap" where
  "FFT_realTransform f h out inp =
     (case fft_plan f of
        P2 p \<Rightarrow>
          (case P2FFT_realTransform p h out inp of
             Inl e \<Rightarrow> Inl e
           | Inr h' \<Rightarrow> Inr (f, h'))
      | NP2 p \<Rightarrow>
          (case NP2FFT_realTransform p h out inp of
             Inl e \<Rightarrow> Inl e
           | Inr r \<Rightarrow> Inr (f\<lparr> fft_plan := NP2 (fst r) \<rparr>, snd r)))"

definition FFT_transform :: "FFT \<Rightarrow> heap \<Rightarrow> ref \<Rightarrow> ref \<Rightarrow> error + FFT \<times> heap" where
  "FFT_transform f h out inp =
     (case fft_plan f of
        P2 p \<Rightarrow>
          (case P2FFT_transform p h out inp of
             Inl e \<Rightarrow> Inl e
           | Inr h' \<Rightarrow> Inr (f, h'))
      | NP2 p \<Rightarrow>
          (case NP2FFT_transform p h out inp of
             Inl e \<Rightarrow> Inl e
           | Inr r \<Rightarrow> Inr (f\<lparr> fft_plan := NP2 (fst r) \<rparr>, snd r)))"

section \<open>utils/audio: window functions\<close>

definition generalized_cosine_window :: "int \<Rightarrow> real \<Rightarrow> jsnum list" where
  "generalized_cosine_window M a_0 =
     (if M < 1 then []
      else if M = 1 then [Num 1]
      else
        (let a_1 = 1 - a_0;
             factor = 2 * pi / real_of_int (M - 1)
         in fold (\<lambda>m cos_vals.
                    aset cos_vals (int m) (Num (a_0 - a_1 * cos (real m * factor))))
              (iters 0 M 1) (zeros M)))"

definition hanning :: "int \<Rightarrow> jsnum list" where
  "hanning M = generalized_cosine_window M (5 / 10)"

definition hamming :: "int \<Rightarrow> jsnum list" where
  "hamming M = generalized_cosine_window M (54 / 100)"

text \<open>
  \<open>window_function(window_length, name, {periodic, frame_length, center})\<close>.
  \<open>new Float64Array(length)\<close> throws a RangeError for a negative length. The option
  \<open>center\<close> is not used by the code.
\<close>

definition window_function :: "int \<Rightarrow> string \<Rightarrow> bool \<Rightarrow> int option \<Rightarrow> error + jsnum list" where
  "window_function window_length name periodic frame_length =
     (let len = (if periodic then window_length + 1 else window_length);
          window =
            (if name = ''boxcar''
             then (if len < 0 then Inl RangeError else Inr (replicate (nat len) (Num 1)))
             else if name = ''hann'' \<or> name = ''hann_window'' then Inr (hanning len)
             else if name = ''hamming'' then Inr (hamming len)
             else if name = ''povey''
             then Inr (map (\<lambda>x. js_pow x (Num (85 / 100))) (hanning len))
             else Inl (Error (''Unknown window type '' @ name @ ''.'')))
      in case window of
           Inl e \<Rightarrow> Inl e
         | Inr w0 \<Rightarrow>
             (let w = (if periodic then subarray w0 0 window_length else w0)
              in case frame_length of
                   None \<Rightarrow> Inr w
                 | Some fl \<Rightarrow>
                     if window_length > fl
                     then Inl (Error ''Length of the window may not be larger than frame_length'')
                     else Inr w))"

section \<open>utils/audio: padding and decibel conversion\<close>

text \<open>
  Modelled from the spec: \<open>calculateReflectOffset\<close> of \<^verbatim>\<open>utils/core\<close> is not
  among the sources. The spec says the padding mirrors the waveform without repeating
  the edge sample: the index runs back and forth over \<open>0..w\<close> with period \<open>2 * w\<close>.
\<close>

definition calculateReflectOffset :: "int \<Rightarrow> int \<Rightarrow> int" where
  "calculateReflectOffset i w = \<bar>(i + w) mod (2 * w) - w\<bar>"

definition padReflect :: "jsnum list \<Rightarrow> int \<Rightarrow> int \<Rightarrow> error + jsnum list" where
  "padReflect array left right =
     (if alen array + left + right < 0 then Inl RangeError
      else
        (let padded0 = zeros (alen array + left + right);
             w = alen array - 1;
             padded1 = fold (\<lambda>m padded. aset padded (left + int m) (aget array (int m)))
                         (iters 0 (alen array) 1) padded0;
             padded2 = fold (\<lambda>m padded.
                               let i = 1 + int m
                               in aset padded (left - i) (aget array (calculateReflectOffset i w)))
                         (iters 1 (left + 1) 1) padded1;
             padded3 = fold (\<lambda>m padded.
                               let i = 1 + int m
                               in aset padded (w + left + i)
                                    (aget array (calculateReflectOffset (w - i) w)))
                         (iters 1 (right + 1) 1) padded2
         in Inr padded3))"

text \<open>
  \<open>_db_conversion_helper(spectrogram, factor, reference, min_value, db_range)\<close>, with
  the parentheses of the source: the logarithm is taken of
  \<open>Math.max(min_value, spectrogram[i]) - logReference\<close>.
\<close>

definition db_conversion_helper ::
  "jsnum list \<Rightarrow> real \<Rightarrow> real \<Rightarrow> real \<Rightarrow> real option \<Rightarrow> error + jsnum list" where
  "db_conversion_helper spec factor reference min_value db_range =
     (if reference \<le> 0 then Inl (Error ''reference must be greater than zero'')
      else if min_value \<le> 0 then Inl (Error ''min_value must be greater than zero'')
      else
        (let reference1 = Math_max (Num min_value) (Num reference);
             logReference = Math_log10 reference1;
             spec1 = fold (\<lambda>m sp.
                             aset sp (int m)
                               (Num factor *
                                Math_log10 (Math_max (Num min_value) (aget sp (int m)) - logReference)))
                       (iters 0 (alen spec) 1) spec
         in case db_range of
              None \<Rightarrow> Inr spec1
            | Some r \<Rightarrow>
                if r \<le> 0 then Inl (Error ''db_range must be greater than zero'')
                else
                  (case max_arr spec1 of
                     Inl e \<Rightarrow> Inl e
                   | Inr mx \<Rightarrow>
                       (let maxValue = fst mx - Num r
                        in Inr (fold (\<lambda>m sp. aset sp (int m) (Math_max (aget sp (int m)) maxValue))
                                  (iters 0 (alen spec1) 1) spec1)))))"

definition amplitude_to_db ::
  "jsnum list \<Rightarrow> real \<Rightarrow> real \<Rightarrow> real option \<Rightarrow> error + jsnum list" where
  "amplitude_to_db spec reference min_value db_range =
     db_conversion_helper spec 20 reference min_value db_range"

definition power_to_db ::
  "jsnum list \<Rightarrow> real \<Rightarrow> real \<Rightarrow> real option \<Rightarrow> error + jsnum list" where
  "power_to_db spec reference min_value db_range =
     db_conversion_helper spec 10 reference min_value db_range"

section \<open>Tensors\<close>

text \<open>
  Modelled from the spec: \<open>Tensor\<close>, \<open>matmul\<close> and \<open>transpose\<close> of
  \<^verbatim>\<open>utils/tensor\<close> are not among the sources. The spec says the mel filter bank
  (num_mel_filters x num_frequency_bins) is matrix-multiplied by the magnitude matrix
  (num_frequency_bins x num_frames), and that the output layout is transposed on request.
  A tensor is its flat row-major data and its two dimensions.
\<close>

record tensor =
  tdata :: "jsnum list"
  rows :: int
  cols :: int

definition dot_row_col :: "tensor \<Rightarrow> tensor \<Rightarrow> int \<Rightarrow> int \<Rightarrow> jsnum" where
  "dot_row_col a b i j =
     fold (\<lambda>l acc. acc + aget (tdata a) (i * cols a + int l) * aget (tdata b) (int l * cols b + j))
       [0..<nat (cols a)] (Num 0)"

definition matmul :: "tensor \<Rightarrow> tensor \<Rightarrow> tensor" where
  "matmul a b =
     \<lparr> tdata = concat (map (\<lambda>i. map (\<lambda>j. dot_row_col a b (int i) (int j)) [0..<nat (cols b)])
                         [0..<nat (rows a)]),
       rows = rows a,
       cols = cols b \<rparr>"

definition transpose10 :: "tensor \<Rightarrow> tensor" where
  "transpose10 t =
     \<lparr> tdata = concat (map (\<lambda>j. map (\<lambda>i. aget (tdata t) (int i * cols t + int j)) [0..<nat (rows t)])
                         [0..<nat (cols t)]),
       rows = cols t,
       cols = rows t \<rparr>"

section \<open>utils/audio: spectrogram\<close>

record spectrogram_options =
  o_fft_length :: "int option"
  o_power :: "real option"
  o_center :: bool
  o_pad_mode :: string
  o_onesided :: bool
  o_preemphasis :: "real option"
  o_mel_filters :: "jsnum list list option"
  o_mel_floor :: real
  o_log_mel :: "string option"
  o_reference :: real
  o_min_value :: real
  o_db_range :: "real option"
  o_remove_dc_offset :: bool
  o_min_num_frames :: "int option"
  o_max_num_frames :: "int option"
  o_do_pad :: bool
  o_transpose :: bool

text \<open>The defaults of the options object.\<close>

definition default_options :: spectrogram_options where
  "default_options =
     \<lparr> o_fft_length = None, o_power = Some 1, o_center = True, o_pad_mode = ''reflect'',
       o_onesided = True, o_preemphasis = None, o_mel_filters = None,
       o_mel_floor = 1 / 10 ^ 10, o_log_mel = None, o_reference = 1,
       o_min_value = 1 / 10 ^ 10, o_db_range = None, o_remove_dc_offset = False,
       o_min_num_frames = None, o_max_num_frames = None, o_do_pad = True,
       o_transpose = False \<rparr>"

text \<open>
  \<open>Math.floor(1 + Math.floor((waveform.length - frame_length) / hop_length))\<close>, raised
  to \<open>min_num_frames\<close> when that is given and larger.
\<close>

definition num_frames_of :: "int \<Rightarrow> int \<Rightarrow> int \<Rightarrow> int option \<Rightarrow> int" where
  "num_frames_of waveform_length frame_length hop_length min_num_frames =
     (let num_frames =
            \<lfloor>1 + real_of_int \<lfloor>real_of_int (waveform_length - frame_length) / real_of_int hop_length\<rfloor>\<rfloor>
      in case min_num_frames of
           None \<Rightarrow> num_frames
         | Some mn \<Rightarrow> if num_frames < mn then mn else num_frames)"

text \<open>The pair \<open>(d1, d1Max)\<close>: frames computed, and frames the output holds.\<close>

definition frame_dims :: "int \<Rightarrow> int option \<Rightarrow> bool \<Rightarrow> int \<times> int" where
  "frame_dims num_frames max_num_frames do_pad =
     (case max_num_frames of
        None \<Rightarrow> (num_frames, num_frames)
      | Some mx \<Rightarrow>
          if mx > num_frames
          then (if do_pad then (num_frames, mx) else (num_frames, num_frames))
          else (mx, mx))"

text \<open>\<open>fill(value, start, end)\<close> of a typed array.\<close>

definition fill :: "jsnum list \<Rightarrow> jsnum \<Rightarrow> int \<Rightarrow> int \<Rightarrow> jsnum list" where
  "fill xs v s e =
     (let rs = rel_index (alen xs) s;
          re = rel_index (alen xs) e
      in fold (\<lambda>m a. aset a (rs + int m) v) (iters rs re 1) xs)"

text \<open>
  One iteration of the loop over the frames. The state is the FFT object, the store
  with \<open>inputBuffer\<close> at reference 0 and \<open>outputBuffer\<close> at reference 1 (two separate
  allocations), and \<open>transposedMagnitudeData\<close>.
\<close>

definition inputBuffer_ref :: ref where
  "inputBuffer_ref = 0"

definition outputBuffer_ref :: ref where
  "outputBuffer_ref = 1"

definition fill_frame ::
  "jsnum list \<Rightarrow> jsnum list \<Rightarrow> int \<Rightarrow> int \<Rightarrow> spectrogram_options \<Rightarrow> int \<Rightarrow> jsnum list \<Rightarrow> jsnum list" where
  "fill_frame waveform window frame_length hop_length opts i inputBuffer =
     (let offset = i * hop_length;
          buffer_size = min (alen waveform - offset) frame_length;
          b1 = (if buffer_size \<noteq> frame_length then fill inputBuffer (Num 0) 0 frame_length
                else inputBuffer);
          b2 = fold (\<lambda>m b. aset b (int m) (aget waveform (offset + int m)))
                 (iters 0 buffer_size 1) b1;
          b3 = (if o_remove_dc_offset opts
                then
                  (let sum = fold (\<lambda>m acc. acc + aget b2 (int m)) (iters 0 buffer_size 1) (Num 0);
                       mean = sum / Num (real_of_int buffer_size)
                   in fold (\<lambda>m b. aset b (int m) (aget b (int m) - mean))
                        (iters 0 buffer_size 1) b2)
                else b2);
          b4 = (case o_preemphasis opts of
                  None \<Rightarrow> b3
                | Some preemphasis \<Rightarrow>
                    (let b = fold (\<lambda>m b.
                                     let j = buffer_size - 1 - int m
                                     in aset b j (aget b j - Num preemphasis * aget b (j - 1)))
                               [0..<nat (buffer_size - 1)] b3
                     in aset b 0 (aget b 0 * Num (1 - preemphasis))))
      in fold (\<lambda>m b. aset b (int m) (aget b (int m) * aget window (int m)))
           (iters 0 (alen window) 1) b4)"

definition magnitudes_step :: "jsnum list \<Rightarrow> int \<Rightarrow> int \<Rightarrow> nat \<Rightarrow> jsnum list \<Rightarrow> jsnum list" where
  "magnitudes_step outputBuffer d1Max i m mags =
     (let j = int m;
          j2 = js_shl j 1
      in aset mags (j * d1Max + i)
           (js_pow (aget outputBuffer j2) (Num 2) + js_pow (aget outputBuffer (j2 + 1)) (Num 2)))"

definition frame_step ::
  "jsnum list \<Rightarrow> jsnum list \<Rightarrow> int \<Rightarrow> int \<Rightarrow> spectrogram_options \<Rightarrow> int \<Rightarrow> int \<Rightarrow> nat \<Rightarrow>
   error + FFT \<times> heap \<times> jsnum list \<Rightarrow> error + FFT \<times> heap \<times> jsnum list" where
  "frame_step waveform window frame_length hop_length opts num_frequency_bins d1Max m st =
     (case st of
        Inl e \<Rightarrow> Inl e
      | Inr (fft, h, mags) \<Rightarrow>
          (let i = int m;
               h1 = h(inputBuffer_ref :=
                        fill_frame waveform window frame_length hop_length opts i (h inputBuffer_ref))
           in case FFT_realTransform fft h1 outputBuffer_ref inputBuffer_ref of
                Inl e \<Rightarrow> Inl e
              | Inr (fft', h2) \<Rightarrow>
                  Inr (fft', h2,
                       fold (magnitudes_step (h2 outputBuffer_ref) d1Max i)
                         (iters 0 num_frequency_bins 1) mags)))"

text \<open>
  The conversion to a log scale, on the data of the mel spectrogram. \<open>o_count\<close> (the
  source's \<open>o\<close>) bounds the
  \<open>log\<close> and \<open>log10\<close> loops only; the decibel helpers get the whole array.
\<close>

definition apply_log_mel ::
  "spectrogram_options \<Rightarrow> int \<Rightarrow> int \<Rightarrow> jsnum list \<Rightarrow> error + jsnum list" where
  "apply_log_mel opts d1 num_mel_filters mel_spec_data =
     (case o_log_mel opts of
        None \<Rightarrow> Inr mel_spec_data
      | Some log_mel \<Rightarrow>
          if o_power opts = None then Inr mel_spec_data
          else
            (let o_count = min (alen mel_spec_data) (d1 * num_mel_filters)
             in if log_mel = ''log''
                then Inr (fold (\<lambda>m a. aset a (int m) (Math_log (aget a (int m)))) (iters 0 o_count 1)
                            mel_spec_data)
                else if log_mel = ''log10''
                then Inr (fold (\<lambda>m a. aset a (int m) (Math_log10 (aget a (int m)))) (iters 0 o_count 1)
                            mel_spec_data)
                else if log_mel = ''dB''
                then
                  (if o_power opts = Some 1
                   then amplitude_to_db mel_spec_data (o_reference opts) (o_min_value opts)
                          (o_db_range opts)
                   else if o_power opts = Some 2
                   then power_to_db mel_spec_data (o_reference opts) (o_min_value opts)
                          (o_db_range opts)
                   else Inl (Error ''Cannot use log_mel option with this power''))
                else Inl (Error ''log_mel must be one of null, log, log10 or dB'')))"

text \<open>
  The body of \<open>spectrogram\<close> in four parts, in the order of the source: the
  validation and padding (in \<open>spectrogram\<close> itself), the FFT object with the loop
  over the frames (\<open>compute_magnitudes\<close>), the power step (\<open>apply_power\<close>) and the
  mel projection with the floor and the log scale (\<open>mel_project\<close>).
\<close>

definition compute_magnitudes ::
  "jsnum list \<Rightarrow> jsnum list \<Rightarrow> int \<Rightarrow> int \<Rightarrow> spectrogram_options \<Rightarrow> int \<Rightarrow> int \<Rightarrow> int \<Rightarrow> int \<Rightarrow>
   error + jsnum list" where
  "compute_magnitudes waveform window frame_length hop_length opts fft_length
       num_frequency_bins d1 d1Max =
     (case FFT_new fft_length of
        Inl e \<Rightarrow> Inl e
      | Inr fft \<Rightarrow>
          if outputBufferSize fft < 0 \<or> num_frequency_bins * d1Max < 0
          then Inl RangeError
          else
            (case fold (frame_step waveform window frame_length hop_length opts
                          num_frequency_bins d1Max)
                    (iters 0 d1 1)
                    (Inr (fft,
                          (\<lambda>r. [])(inputBuffer_ref := zeros fft_length,
                                    outputBuffer_ref := zeros (outputBufferSize fft)),
                          zeros (num_frequency_bins * d1Max))) of
               Inl e \<Rightarrow> Inl e
             | Inr st \<Rightarrow> Inr (snd (snd st))))"

definition apply_power :: "spectrogram_options \<Rightarrow> jsnum list \<Rightarrow> jsnum list" where
  "apply_power opts mags =
     (case o_power opts of
        None \<Rightarrow> mags
      | Some p \<Rightarrow>
          if p \<noteq> 2
          then (let pow = Num 2 / Num p
                in fold (\<lambda>m a. aset a (int m) (js_pow (aget a (int m)) pow))
                     (iters 0 (alen mags) 1) mags)
          else mags)"

definition mel_project ::
  "spectrogram_options \<Rightarrow> int \<Rightarrow> int \<Rightarrow> int \<Rightarrow> jsnum list \<Rightarrow> error + tensor" where
  "mel_project opts num_frequency_bins d1 d1Max mags =
     (case o_mel_filters opts of
        None \<Rightarrow> Inl (Error ''mel_filters must be provided'')
      | Some mel_filters \<Rightarrow>
          (let num_mel_filters = alen mel_filters;
               mel_spec0 =
                 matmul
                   \<lparr> tdata = concat mel_filters, rows = num_mel_filters, cols = num_frequency_bins \<rparr>
                   \<lparr> tdata = mags, rows = num_frequency_bins, cols = d1Max \<rparr>;
               mel_spec = (if o_transpose opts then transpose10 mel_spec0 else mel_spec0);
               mel_spec_data =
                 fold (\<lambda>m a. aset a (int m) (Math_max (Num (o_mel_floor opts)) (aget a (int m))))
                   (iters 0 (alen (tdata mel_spec)) 1) (tdata mel_spec)
           in case apply_log_mel opts d1 num_mel_filters mel_spec_data of
                Inl e \<Rightarrow> Inl e
              | Inr dat \<Rightarrow> Inr (mel_spec\<lparr> tdata := dat \<rparr>)))"

definition spectrogram ::
  "jsnum list \<Rightarrow> jsnum list \<Rightarrow> int \<Rightarrow> int \<Rightarrow> spectrogram_options \<Rightarrow> error + tensor" where
  "spectrogram waveform0 window frame_length hop_length opts =
     (let window_length = alen window;
          fft_length = (case o_fft_length opts of None \<Rightarrow> frame_length | Some n \<Rightarrow> n)
      in if frame_length > fft_length
         then Inl (Error ''frame_length may not be larger than fft_length'')
         else if window_length \<noteq> frame_length
         then Inl (Error ''Length of the window must equal frame_length'')
         else if hop_length \<le> 0
         then Inl (Error ''hop_length must be greater than zero'')
         else if o_power opts = None \<and> o_mel_filters opts \<noteq> None
         then Inl (Error ''You have provided mel_filters but power is None.'')
         else if o_center opts \<and> o_pad_mode opts \<noteq> ''reflect''
         then Inl (Error ''pad_mode not implemented yet.'')
         else
           (case (if o_center opts
                  then (let half_window = \<lfloor>real_of_int (fft_length - 1) / 2\<rfloor> + 1
                        in padReflect waveform0 half_window half_window)
                  else Inr waveform0) of
              Inl e \<Rightarrow> Inl e
            | Inr waveform \<Rightarrow>
                (let num_frames = num_frames_of (alen waveform) frame_length hop_length
                                    (o_min_num_frames opts);
                     num_frequency_bins =
                       (if o_onesided opts then \<lfloor>real_of_int fft_length / 2\<rfloor> + 1 else fft_length);
                     d = frame_dims num_frames (o_max_num_frames opts) (o_do_pad opts);
                     d1 = fst d;
                     d1Max = snd d
                 in case compute_magnitudes waveform window frame_length hop_length opts
                           fft_length num_frequency_bins d1 d1Max of
                      Inl e \<Rightarrow> Inl e
                    | Inr mags0 \<Rightarrow>
                        mel_project opts num_frequency_bins d1 d1Max (apply_power opts mags0))))"

section \<open>Notions used in the statements\<close>

text \<open>The number of frames of a returned tensor, in either layout.\<close>

definition tensor_frames :: "spectrogram_options \<Rightarrow> tensor \<Rightarrow> int" where
  "tensor_frames opts t = (if o_transpose opts then rows t else cols t)"

text \<open>The length of the waveform after the optional reflect padding.\<close>

definition padded_length :: "jsnum list \<Rightarrow> int \<Rightarrow> spectrogram_options \<Rightarrow> int" where
  "padded_length waveform frame_length opts =
     (let fft_length = (case o_fft_length opts of None \<Rightarrow> frame_length | Some n \<Rightarrow> n);
          half_window = \<lfloor>real_of_int (fft_length - 1) / 2\<rfloor> + 1
      in if o_center opts then alen waveform + half_window + half_window else alen waveform)"


text \<open>The four window kinds of the spec.\<close>

definition window_kinds :: "string list" where
  "window_kinds = [''boxcar'', ''hann'', ''hamming'', ''povey'']"

text \<open>The width of the first pass for the size \<open>2 ^ k\<close>.\<close>

definition p2_width_of :: "nat \<Rightarrow> int" where
  "p2_width_of k = (if even k then int k - 1 else int k)"


text \<open>
  What the last loop of \<open>NP2FFT._transform\<close> stores at index \<open>i\<close> of the output:
  the real part of a product at an even index, the imaginary part at an odd one.
\<close>

definition output_at :: "jsnum list \<Rightarrow> jsnum list \<Rightarrow> int \<Rightarrow> int \<Rightarrow> jsnum" where
  "output_at ob3 sb a i =
     (if even i
      then aget ob3 (i + a) * aget sb i - aget ob3 (i + a + 1) * aget sb (i + 1)
      else aget ob3 (i - 1 + a) * aget sb i + aget ob3 (i + a) * aget sb (i - 1))"

text \<open>
  The quantities \<open>spectrogram\<close> derives from its arguments, the shape it expects of
  a mel filter bank (rows of \<open>num_frequency_bins\<close> finite numbers), and the entry
  of a returned tensor for the mel filter \<open>i\<close> and the frame \<open>f\<close>, in either layout.
\<close>

definition fft_length_of :: "int \<Rightarrow> spectrogram_options \<Rightarrow> int" where
  "fft_length_of frame_length opts =
     (case o_fft_length opts of None \<Rightarrow> frame_length | Some n \<Rightarrow> n)"

definition num_frequency_bins_of :: "int \<Rightarrow> spectrogram_options \<Rightarrow> int" where
  "num_frequency_bins_of frame_length opts =
     (if o_onesided opts then \<lfloor>real_of_int (fft_length_of frame_length opts) / 2\<rfloor> + 1
      else fft_length_of frame_length opts)"

definition computed_frames :: "jsnum list \<Rightarrow> int \<Rightarrow> int \<Rightarrow> spectrogram_options \<Rightarrow> int" where
  "computed_frames waveform frame_length hop_length opts =
     num_frames_of (padded_length waveform frame_length opts) frame_length hop_length
       (o_min_num_frames opts)"

definition mel_filters_ok :: "int \<Rightarrow> jsnum list list \<Rightarrow> bool" where
  "mel_filters_ok num_frequency_bins mel_filters =
     (\<forall>row \<in> set mel_filters. alen row = num_frequency_bins \<and> (\<forall>x \<in> set row. is_fin x))"

definition tensor_at :: "spectrogram_options \<Rightarrow> tensor \<Rightarrow> int \<Rightarrow> int \<Rightarrow> jsnum" where
  "tensor_at opts t i f =
     (if o_transpose opts then aget (tdata t) (f * cols t + i) else aget (tdata t) (i * cols t + f))"

text \<open>The columns of the magnitude buffer that no frame writes.\<close>

definition padding_zero :: "int \<Rightarrow> int \<Rightarrow> int \<Rightarrow> jsnum list \<Rightarrow> bool" where
  "padding_zero nb d1 d1Max mags =
     (alen mags = nb * d1Max \<and>
      (\<forall>l f. 0 \<le> l \<and> l < nb \<and> d1 \<le> f \<and> 0 \<le> f \<and> f < d1Max
             \<longrightarrow> aget mags (l * d1Max + f) = Num 0))"

text \<open>The same for the state of the loop over the frames.\<close>

definition state_padding_zero ::
  "int \<Rightarrow> int \<Rightarrow> int \<Rightarrow> error + FFT \<times> heap \<times> jsnum list \<Rightarrow> bool" where
  "state_padding_zero nb d1 d1Max st =
     (case st of Inl e \<Rightarrow> True | Inr s \<Rightarrow> padding_zero nb d1 d1Max (snd (snd s)))"

text \<open>The padding on each side when \<open>center\<close> is set.\<close>

definition half_window_of :: "int \<Rightarrow> spectrogram_options \<Rightarrow> int" where
  "half_window_of frame_length opts = \<lfloor>real_of_int (fft_length_of frame_length opts - 1) / 2\<rfloor> + 1"

text \<open>
  The objects of a small example: the plan for the size 2, a mel filter bank of one
  filter over two bins, and two configurations over it.
\<close>

definition plan2 :: P2FFT where
  "plan2 = \<lparr> p2_size = 2, p2_csize = 4, p2_width = 1, p2_bitrev = bitrev_table 1,
             p2_table = fold (table_step 2) (iters 0 4 2) (zeros 4) \<rparr>"

definition mel1 :: "jsnum list list" where
  "mel1 = [[Num 1, Num 1]]"

definition zero_db_options :: spectrogram_options where
  "zero_db_options =
     default_options\<lparr> o_center := False, o_mel_filters := Some mel1,
                      o_log_mel := Some ''dB'', o_reference := 10 \<rparr>"

definition pad_options :: spectrogram_options where
  "pad_options =
     default_options\<lparr> o_center := False, o_mel_filters := Some mel1, o_max_num_frames := Some 2 \<rparr>"

section \<open>Arrays, loops and window functions: basic facts\<close>

lemma length_aset [simp]: "length (aset xs i v) = length xs"
  by (simp add: aset_def)

lemma alen_aset [simp]: "alen (aset xs i v) = alen xs"
  by (simp add: alen_def)

lemma aget_aset: "aget (aset xs i v) j = (if i = j \<and> 0 \<le> i \<and> i < alen xs then v else aget xs j)"
  by (auto simp: aget_def aset_def alen_def nth_list_update)

lemma aget_aset_same: "0 \<le> i \<Longrightarrow> i < alen xs \<Longrightarrow> aget (aset xs i v) i = v"
  by (simp add: aget_aset)

lemma aget_aset_other: "i \<noteq> j \<Longrightarrow> aget (aset xs i v) j = aget xs j"
  by (simp add: aget_aset)

lemma length_asets [simp]: "length (asets xs ws) = length xs"
  unfolding asets_def by (induction ws arbitrary: xs) simp_all

lemma alen_asets [simp]: "alen (asets xs ws) = alen xs"
  by (simp add: alen_def)

lemma asets_Nil [simp]: "asets xs [] = xs"
  by (simp add: asets_def)

lemma asets_Cons [simp]: "asets xs (w # ws) = asets (aset xs (fst w) (snd w)) ws"
  by (simp add: asets_def)

lemma length_fold_keep:
  assumes "\<And>x a. length (f x a) = length a"
  shows "length (fold f xs a) = length a"
  using assms by (induction xs arbitrary: a) simp_all

lemma alen_fold_keep:
  assumes "\<And>x a. alen (f x a) = alen a"
  shows "alen (fold f xs a) = alen a"
  using assms by (induction xs arbitrary: a) simp_all

lemma fold_invariant:
  assumes "P a" and "\<And>x a. x \<in> set xs \<Longrightarrow> P a \<Longrightarrow> P (f x a)"
  shows "P (fold f xs a)"
  using assms by (induction xs arbitrary: a) simp_all

lemma alen_zeros [simp]: "alen (zeros n) = max 0 n"
  by (simp add: alen_def zeros_def)

lemma aget_zeros: "0 \<le> i \<Longrightarrow> i < n \<Longrightarrow> aget (zeros n) i = Num 0"
  by (simp add: aget_def zeros_def alen_def)

lemma iters_unit: "iters 0 n 1 = [0..<nat n]"
  by (simp add: iters_def)

lemma set_iters_unit [simp]: "set (iters 0 n 1) = {m. int m < n}"
  by (auto simp: iters_def)

lemma gcw_lt1: "M < 1 \<Longrightarrow> generalized_cosine_window M a = []"
  by (simp add: generalized_cosine_window_def)

lemma gcw_1: "generalized_cosine_window 1 a = [Num 1]"
  by (simp add: generalized_cosine_window_def)

lemma gcw_2: "generalized_cosine_window 2 a = [Num (2 * a - 1), Num (2 * a - 1)]"
  by (simp add: generalized_cosine_window_def iters_def zeros_def aset_def alen_def Let_def
      upt_conv_Cons numeral_2_eq_2)

lemma subarray_nil [simp]: "subarray [] b e = []"
  by (simp add: subarray_def)

lemma subarray_0_1: "subarray (x # xs) 0 1 = [x]"
  by (simp add: subarray_def rel_index_def alen_def)

lemma subarray_0_0: "subarray xs 0 0 = []"
  by (simp add: subarray_def rel_index_def alen_def)

lemma wf_hann_1_periodic: "window_function 1 ''hann'' True None = Inr [Num 0]"
  by (simp add: window_function_def hanning_def gcw_2 subarray_0_1)

lemma wf_hamming_1_periodic: "window_function 1 ''hamming'' True None = Inr [Num (8/100)]"
  by (simp add: window_function_def hamming_def gcw_2 subarray_0_1)

lemma wf_povey_1_periodic: "window_function 1 ''povey'' True None = Inr [Num 0]"
  by (simp add: window_function_def hanning_def gcw_2 subarray_0_1 pow_fin_def)

lemma wf_boxcar_1_periodic: "window_function 1 ''boxcar'' True None = Inr [Num 1]"
  by (simp add: window_function_def subarray_0_1 numeral_2_eq_2)

lemma wf_1_symmetric:
  "k \<in> {''boxcar'', ''hann'', ''hamming'', ''povey''} \<Longrightarrow> window_function 1 k False None = Inr [Num 1]"
  by (auto simp: window_function_def hanning_def hamming_def gcw_1 pow_fin_def)

lemma wf_0:
  "k \<in> {''boxcar'', ''hann'', ''hamming'', ''povey''} \<Longrightarrow> window_function 0 k p None = Inr []"
  by (cases p) (auto simp: window_function_def hanning_def hamming_def gcw_1 gcw_lt1 subarray_0_0)

lemma wf_neg_cos:
  "k \<in> {''hann'', ''hamming'', ''povey''} \<Longrightarrow> n < 1 \<Longrightarrow> window_function n k p None = Inr []"
  by (cases p; cases "n = 0") (auto simp: window_function_def hanning_def hamming_def gcw_1 gcw_lt1 subarray_0_0)

lemma wf_neg_boxcar:
  "n < 0 \<Longrightarrow> window_function n ''boxcar'' p None =
     (if p \<and> n = - 1 then Inr [] else Inl RangeError)"
  by (auto simp: window_function_def)

section \<open>Frame counts\<close>

lemma alen_nonneg [simp]: "0 \<le> alen xs"
  by (simp add: alen_def)

lemma alen_padReflect:
  assumes "padReflect array left right = Inr padded"
  shows "alen padded = alen array + left + right"
proof -
  have nn: "0 \<le> alen array + left + right"
    using assms by (simp add: padReflect_def split: if_splits)
  have "padded = fold (\<lambda>m padded.
                               let i = 1 + int m
                               in aset padded (alen array - 1 + left + i)
                                    (aget array (calculateReflectOffset (alen array - 1 - i) (alen array - 1))))
                         (iters 1 (right + 1) 1) (fold (\<lambda>m padded.
                               let i = 1 + int m
                               in aset padded (left - i) (aget array (calculateReflectOffset i (alen array - 1))))
                         (iters 1 (left + 1) 1) (fold (\<lambda>m padded. aset padded (left + int m) (aget array (int m)))
                         (iters 0 (alen array) 1) (zeros (alen array + left + right))))"
    using assms nn unfolding padReflect_def Let_def by simp
  then have "alen padded = alen (zeros (alen array + left + right))"
    by (simp only: Let_def alen_fold_keep alen_aset)
  then show ?thesis using nn by simp
qed

lemma num_frames_of_None:
  "num_frames_of wl fl hop None = 1 + (wl - fl) div hop"
proof -
  have "\<lfloor>real_of_int (wl - fl) / real_of_int hop\<rfloor> = (wl - fl) div hop"
    by (rule floor_divide_of_int_eq)
  then show ?thesis
    by (simp add: num_frames_of_def)
qed

lemma mel_project_frames:
  assumes "mel_project opts nb d1 d1Max mags = Inr t"
  shows "tensor_frames opts t = d1Max"
  using assms
  by (auto simp: mel_project_def Let_def tensor_frames_def matmul_def transpose10_def
      split: option.splits sum.splits if_splits)

lemma spectrogram_Inr_frames:
  assumes "spectrogram waveform window frame_length hop_length opts = Inr t"
  shows "tensor_frames opts t =
           snd (frame_dims (num_frames_of (padded_length waveform frame_length opts) frame_length
                  hop_length (o_min_num_frames opts))
                (o_max_num_frames opts) (o_do_pad opts))"
proof (cases "o_center opts")
  case True
  with assms show ?thesis
    by (auto simp: spectrogram_def Let_def padded_length_def ac_simps
        split: if_splits sum.splits dest!: mel_project_frames alen_padReflect)
next
  case False
  with assms show ?thesis
    by (auto simp: spectrogram_def Let_def padded_length_def
        split: if_splits sum.splits dest!: mel_project_frames)
qed


section \<open>Sizes that are a power of two\<close>

lemma ToInt32_id: "- (2 ^ 31) \<le> x \<Longrightarrow> x < 2 ^ 31 \<Longrightarrow> ToInt32 x = x"
  by (simp add: ToInt32_def)

lemma ToUint32_id: "0 \<le> x \<Longrightarrow> x < 2 ^ 32 \<Longrightarrow> ToUint32 x = x"
  by (simp add: ToUint32_def)

lemma js_shl_small:
  assumes "0 \<le> a" "a * 2 ^ s < 2 ^ 31" "s < 32"
  shows "js_shl a (int s) = a * 2 ^ s"
proof -
  have "a * 1 \<le> a * 2 ^ s"
    using assms(1) by (intro mult_left_mono) simp_all
  then have a: "a < 2 ^ 31" using assms(2) by simp
  have nn: "0 \<le> a * 2 ^ s" using assms(1) by simp
  have 1: "ToInt32 a = a"
    using assms(1) a by (intro ToInt32_id) simp_all
  have 2: "ToInt32 (a * 2 ^ s) = a * 2 ^ s"
    using nn assms(2) by (intro ToInt32_id) simp_all
  show ?thesis
    using assms(3) by (simp add: js_shl_def 1 2)
qed

lemma js_sar_small:
  assumes "0 \<le> a" "a < 2 ^ 31" "s < 32"
  shows "js_sar a (int s) = a div 2 ^ s"
  using assms by (simp add: js_sar_def ToInt32_id)

lemma js_shr_small:
  assumes "0 \<le> a" "a < 2 ^ 32" "s < 32"
  shows "js_shr a (int s) = a div 2 ^ s"
  using assms by (simp add: js_shr_def ToUint32_id)

lemma js_and_small:
  assumes "0 \<le> a" "a < 2 ^ 31" "0 \<le> b" "b < 2 ^ 31"
  shows "js_and a b = a AND b"
  using assms by (simp add: js_and_def ToInt32_id)

lemma js_or_small:
  assumes "0 \<le> a" "a < 2 ^ 31" "0 \<le> b" "b < 2 ^ 31"
  shows "js_or a b = a OR b"
  using assms by (simp add: js_or_def ToInt32_id)

lemma pow2_lt_31: "k \<le> 30 \<Longrightarrow> (2::int) ^ k < 2 ^ 31"
  by (rule power_strict_increasing) simp_all

lemma pow2_and_pred: "(2::int) ^ k AND (2 ^ k - 1) = 0"
proof -
  have "(2::int) ^ k AND mask k = 0"
    by (rule bit_eqI) (simp add: bit_and_iff bit_exp_iff bit_mask_iff)
  then show ?thesis
    by (simp add: mask_eq_exp_minus_1)
qed

lemma isPowerOfTwo_pow2: "k \<le> 30 \<Longrightarrow> isPowerOfTwo (2 ^ k)"
  using pow2_lt_31 [of k]
  by (simp add: isPowerOfTwo_def js_and_small pow2_and_pred)

lemma and_pred_zero_pow2:
  fixes n :: int
  assumes "0 < n" "n AND (n - 1) = 0"
  shows "\<exists>k. n = 2 ^ k"
  using assms
proof (induction "nat n" arbitrary: n rule: less_induct)
  case less
  show ?case
  proof (cases "even n")
    case True
    then obtain m where m: "n = 2 * m" by (auto elim: evenE)
    with less.prems have mpos: "0 < m" by simp
    have "n AND (n - 1) = 2 * (m AND (m - 1))"
    proof -
      have "(n - 1) div 2 = m - 1" using m by simp
      moreover have "n div 2 = m" using m by simp
      moreover have "n mod 2 = 0" using m by simp
      ultimately show ?thesis
        using less.prems mpos m
        by (subst and_int_rec) (simp add: )
    qed
    then have "m AND (m - 1) = 0" using less.prems by simp
    moreover have "nat m < nat n" using m mpos by simp
    ultimately obtain k where "m = 2 ^ k" using less.hyps mpos by blast
    then have "n = 2 ^ Suc k" using m by simp
    then show ?thesis by blast
  next
    case False
    then obtain m where m: "n = 2 * m + 1" by (auto elim: oddE)
    have "n AND (n - 1) = 2 * (m AND m)"
    proof -
      have "(n - 1) div 2 = m" using m by simp
      moreover have "n div 2 = m" using m by simp
      ultimately show ?thesis
        using False m
        by (subst and_int_rec) (simp add: )
    qed
    then have "m = 0" using less.prems by simp
    then have "n = 2 ^ 0" using m by simp
    then show ?thesis by blast
  qed
qed

lemma isPowerOfTwo_imp_pow2:
  assumes "isPowerOfTwo n" "n < 2 ^ 31"
  shows "\<exists>k\<le>30. n = 2 ^ k"
proof -
  from assms have pos: "0 < n" by (simp add: isPowerOfTwo_def)
  have "js_and n (n - 1) = n AND (n - 1)"
    using pos assms(2) by (intro js_and_small) simp_all
  with assms have "n AND (n - 1) = 0" by (simp add: isPowerOfTwo_def)
  from and_pred_zero_pow2 [OF pos this] obtain k where k: "n = 2 ^ k" ..
  have "k \<le> 30"
  proof (rule ccontr)
    assume "\<not> k \<le> 30"
    then have "31 \<le> k" by simp
    then have "(2::int) ^ 31 \<le> 2 ^ k" by (intro power_increasing) simp_all
    with k assms(2) show False by simp
  qed
  with k show ?thesis by blast
qed

lemma power_loop_pow2:
  assumes "j \<le> k" "k \<le> 30"
  shows "power_loop (2 ^ k) (2 ^ j) pw = Some (pw + int (k - j))"
  using assms
proof (induction "k - j" arbitrary: j pw)
  case 0
  then have "j = k" by simp
  then show ?case by (subst power_loop.simps) simp
next
  case (Suc d)
  then have lt: "j < k" by simp
  then have less: "(2::int) ^ j < 2 ^ k" by (intro power_strict_increasing) simp_all
  have "(2::int) ^ j * 2 ^ 1 = 2 ^ Suc j" by simp
  moreover have "(2::int) ^ Suc j < 2 ^ 31" using lt Suc.prems by (intro pow2_lt_31) simp
  ultimately have shl: "js_shl (2 ^ j) 1 = 2 ^ Suc j"
    using js_shl_small [of "2 ^ j" 1] by simp
  have "power_loop (2 ^ k) (2 ^ Suc j) (pw + 1) = Some (pw + 1 + int (k - Suc j))"
    using Suc lt by (intro Suc.hyps) simp_all
  then show ?case
    using less shl lt by (subst power_loop.simps) simp
qed

lemma next_pow2_props: "\<exists>j. next_pow2 n = 2 ^ j \<and> n \<le> 2 ^ j \<and> (2 \<le> n \<longrightarrow> 2 ^ j < 2 * n)"
proof (induction n rule: next_pow2.induct)
  case (1 n)
  show ?case
  proof (cases "n \<le> 1")
    case True
    then have "next_pow2 n = 2 ^ 0" by (simp add: next_pow2.simps)
    with True show ?thesis by (intro exI [of _ 0]) simp
  next
    case False
    with 1 obtain j where j: "next_pow2 ((n + 1) div 2) = 2 ^ j" "(n + 1) div 2 \<le> 2 ^ j"
      "2 \<le> (n + 1) div 2 \<longrightarrow> 2 ^ j < 2 * ((n + 1) div 2)" by blast
    have eq: "next_pow2 n = 2 ^ Suc j" using False j by (simp add: next_pow2.simps [of n])
    have le: "n \<le> 2 ^ Suc j" using j(2) by simp
    have lt: "2 ^ Suc j < 2 * n"
    proof (cases "2 \<le> (n + 1) div 2")
      case True
      with j(3) have "2 ^ j < 2 * ((n + 1) div 2)" by simp
      then have "2 ^ j < n + 1" by simp
      then have "2 ^ j \<le> n" by simp
      moreover have "2 ^ j \<noteq> n"
      proof
        assume e: "2 ^ j = n"
        then have "even n \<or> n = 1" by (cases j) auto
        with False have "even n" by simp
        then have "(n + 1) div 2 = n div 2" by simp
        with j(2) e have "n div 2 \<ge> n" 
          using \<open>2 ^ j < 2 * ((n + 1) div 2)\<close> by simp
        with False show False by simp
      qed
      ultimately have "2 ^ j < n" by simp
      then show ?thesis by simp
    next
      case F2: False
      then have n: "n = 2" using False by simp
      with j(1) have "2 ^ j = (1::nat)" by (simp add: next_pow2.simps)
      with n show ?thesis by simp
    qed
    from eq le lt show ?thesis by blast
  qed
qed

section \<open>The constructors succeed\<close>

lemma P2FFT_new_pow2:
  assumes "1 \<le> k" "k \<le> 29"
  shows "P2FFT_new (2 ^ k) =
           Inr \<lparr> p2_size = 2 ^ k, p2_csize = 2 ^ (k + 1), p2_width = p2_width_of k,
                 p2_bitrev = bitrev_table (p2_width_of k),
                 p2_table = fold (table_step (2 ^ k)) (iters 0 (2 ^ k * 2) 2) (zeros (2 ^ k * 2)) \<rparr>"
proof -
  have lt: "(2::int) ^ k < 2 ^ 31" using assms by (intro pow2_lt_31) simp
  have or0: "js_or (2 ^ k) 0 = 2 ^ k"
    using lt by (simp add: js_or_small)
  have gt1: "(1::int) < 2 ^ k"
    using assms(1) by (metis One_nat_def less_eq_Suc_le one_less_numeral_iff one_less_power semiring_norm(76))
  have ip: "isPowerOfTwo (2 ^ k)" using assms by (intro isPowerOfTwo_pow2) simp
  have pl: "power_loop (2 ^ k) 1 0 = Some (int k)"
    using power_loop_pow2 [of 0 k 0] assms by simp
  have "(2::int) ^ k * 2 ^ 1 < 2 ^ 31"
    using pow2_lt_31 [of "k + 1"] assms by simp
  then have shl: "js_shl (2 ^ k) 1 = 2 ^ (k + 1)"
    using js_shl_small [of "2 ^ k" 1] by simp
  have par: "(int k mod 2 = 0) = even k"
    by presburger
  show ?thesis
    using gt1 ip
    by (simp add: P2FFT_new_def or0 pl shl Let_def p2_width_of_def par)
qed

lemma P2FFT_new_pow2_ex:
  assumes "1 \<le> k" "k \<le> 29"
  shows "\<exists>p. P2FFT_new (2 ^ k) = Inr p"
  using P2FFT_new_pow2 [OF assms] by blast

lemma NP2FFT_new_ok:
  assumes "2 \<le> n" "n \<le> 2 ^ 28"
  shows "\<exists>p. NP2FFT_new n = Inr p \<and> 0 \<le> np2_bufferSize p"
proof -
  define b where "b = 2 * (2 * n - 1)"
  have b6: "6 \<le> b" using assms(1) by (simp add: b_def)
  have bub: "b < 2 ^ 30" using assms(2) by (simp add: b_def)
  obtain j where j: "next_pow2 (nat b) = 2 ^ j" "nat b \<le> 2 ^ j" "2 \<le> nat b \<longrightarrow> 2 ^ j < 2 * nat b"
    using next_pow2_props [of "nat b"] by blast
  have jlo: "3 \<le> j"
  proof (rule ccontr)
    assume "\<not> 3 \<le> j"
    then have "j \<le> 2" by simp
    then have "(2::nat) ^ j \<le> 2 ^ 2" by (intro power_increasing) simp_all
    moreover have "6 \<le> nat b" using b6 by simp
    ultimately show False using j(2) by simp
  qed
  have jhi: "j \<le> 30"
  proof (rule ccontr)
    assume "\<not> j \<le> 30"
    then have "31 \<le> j" by simp
    then have "(2::nat) ^ 31 \<le> 2 ^ j" by (intro power_increasing) simp_all
    moreover have "2 ^ j < 2 * nat b" using j(3) b6 by simp
    ultimately show False using bub by simp
  qed
  have np: "int (next_pow2 (nat b)) = 2 ^ j" using j(1) by simp
  obtain i where i: "j = Suc i" using jlo by (cases j) simp_all
  have sar: "js_sar (2 ^ j) 1 = 2 ^ i"
    using js_sar_small [of "2 ^ j" 1] pow2_lt_31 [OF jhi] i by simp
  obtain p where p: "P2FFT_new (2 ^ i) = Inr p"
    using P2FFT_new_pow2_ex [of i] i jlo jhi by auto
  show ?thesis
    unfolding NP2FFT_new_def Let_def b_def [symmetric]
    using b6 p by (simp add: np sar)
qed

lemma FFT_new_ok:
  assumes "2 \<le> n" "n \<le> 2 ^ 28"
  shows "\<exists>f. FFT_new n = Inr f \<and> 0 \<le> outputBufferSize f"
proof (cases "isPowerOfTwo n")
  case True
  have "n < 2 ^ 31" using assms(2) by simp
  from isPowerOfTwo_imp_pow2 [OF True this] obtain k where k: "k \<le> 30" "n = 2 ^ k" by blast
  have k1: "1 \<le> k" using assms(1) k(2) by (cases k) simp_all
  have k29: "k \<le> 29"
  proof (rule ccontr)
    assume "\<not> k \<le> 29"
    then have "29 \<le> k" by simp
    then have "(2::int) ^ 29 \<le> 2 ^ k" by (intro power_increasing) simp_all
    with k(2) assms(2) show False by simp
  qed
  from P2FFT_new_pow2_ex [OF k1 k29] obtain p where "P2FFT_new n = Inr p" using k(2) by blast
  then show ?thesis using True assms(1) by (simp add: FFT_new_def)
next
  case False
  from NP2FFT_new_ok [OF assms] obtain p where "NP2FFT_new n = Inr p" "0 \<le> np2_bufferSize p"
    by blast
  then show ?thesis using False by (simp add: FFT_new_def)
qed

lemma FFT_realTransform_distinct:
  assumes "out \<noteq> inp"
  shows "\<exists>f' h'. FFT_realTransform f h out inp = Inr (f', h')"
  using assms
  by (cases "fft_plan f")
    (simp_all add: FFT_realTransform_def P2FFT_realTransform_def NP2FFT_realTransform_def Let_def)

lemma frame_step_Inl [simp]:
  "frame_step wav win fl hop opts nb d1Max m (Inl e) = Inl e"
  by (simp add: frame_step_def)

lemma frames_fold_Inl [simp]:
  "fold (frame_step wav win fl hop opts nb d1Max) ms (Inl e) = Inl e"
  by (induction ms) simp_all

lemma frame_step_Inr:
  "\<exists>st'. frame_step wav win fl hop opts nb d1Max m (Inr st) = Inr st'"
proof -
  obtain f h mags where st: "st = (f, h, mags)" using prod_cases3 by blast
  have "outputBuffer_ref \<noteq> inputBuffer_ref"
    by (simp add: outputBuffer_ref_def inputBuffer_ref_def)
  from FFT_realTransform_distinct [OF this]
  obtain f' h' where
    "FFT_realTransform f (h(inputBuffer_ref := fill_frame wav win fl hop opts (int m) (h inputBuffer_ref)))
       outputBuffer_ref inputBuffer_ref = Inr (f', h')" by blast
  then show ?thesis by (simp add: frame_step_def st Let_def)
qed

lemma frames_fold_Inr:
  "\<exists>st'. fold (frame_step wav win fl hop opts nb d1Max) ms (Inr st) = Inr st'"
proof (induction ms arbitrary: st)
  case Nil
  show ?case by (simp del: split_paired_Ex)
next
  case (Cons m ms)
  obtain st1 where "frame_step wav win fl hop opts nb d1Max m (Inr st) = Inr st1"
    using frame_step_Inr by blast
  then show ?case using Cons by simp
qed

lemma compute_magnitudes_ok:
  assumes "FFT_new fft_length = Inr f" "0 \<le> outputBufferSize f" "0 \<le> nb * d1Max"
  shows "\<exists>mags. compute_magnitudes wav win fl hop opts fft_length nb d1 d1Max = Inr mags"
proof -
  obtain st' where
    "fold (frame_step wav win fl hop opts nb d1Max) (iters 0 d1 1)
       (Inr (f, (\<lambda>r. [])(inputBuffer_ref := zeros fft_length,
                         outputBuffer_ref := zeros (outputBufferSize f)),
             zeros (nb * d1Max))) = Inr st'"
    using frames_fold_Inr by blast
  then show ?thesis
    using assms by (simp add: compute_magnitudes_def)
qed

section \<open>The spectrogram call succeeds or fails\<close>

lemma num_frames_nonneg:
  assumes "0 < hop" "fl \<le> wl + hop"
  shows "0 \<le> num_frames_of wl fl hop None"
proof -
  have "0 \<le> wl - fl + hop"
    using assms by simp
  then have "0 \<le> (wl - fl + hop) div hop"
    using assms(1) pos_imp_zdiv_nonneg_iff by blast
  moreover have "(wl - fl + hop) div hop = (wl - fl) div hop + 1"
    using assms(1) by simp
  ultimately show ?thesis
    by (simp add: num_frames_of_None)
qed

lemma mel_project_None:
  "o_mel_filters opts = None \<Longrightarrow>
     mel_project opts nb d1 d1Max mags = Inl (Error ''mel_filters must be provided'')"
  by (simp add: mel_project_def)

lemma apply_log_mel_None: "o_log_mel opts = None \<Longrightarrow> apply_log_mel opts d1 n dat = Inr dat"
  by (simp add: apply_log_mel_def)

lemma mel_project_ok:
  assumes "o_mel_filters opts = Some mf" "o_log_mel opts = None"
  shows "\<exists>t. mel_project opts nb d1 d1Max mags = Inr t"
  using assms by (simp add: mel_project_def Let_def apply_log_mel_None)

lemma spectrogram_ok:
  assumes "alen window = frame_length" "0 < hop_length" "\<not> o_center opts"
    and "o_fft_length opts = None" "2 \<le> frame_length" "frame_length \<le> 2 ^ 28"
    and "o_mel_filters opts = Some mf" "o_power opts \<noteq> None" "o_log_mel opts = None"
    and "o_min_num_frames opts = None" "o_max_num_frames opts = None"
    and "frame_length \<le> alen waveform + hop_length"
  shows "\<exists>t. spectrogram waveform window frame_length hop_length opts = Inr t"
proof -
  obtain f where f: "FFT_new frame_length = Inr f" "0 \<le> outputBufferSize f"
    using FFT_new_ok assms(5,6) by blast
  define nb where "nb = (if o_onesided opts then \<lfloor>real_of_int frame_length / 2\<rfloor> + 1 else frame_length)"
  define nf where "nf = num_frames_of (alen waveform) frame_length hop_length None"
  have nbnn: "0 \<le> nb" using assms(5) by (simp add: nb_def)
  have nfnn: "0 \<le> nf"
    unfolding nf_def by (rule num_frames_nonneg) fact+
  have prod: "0 \<le> nb * nf" using nbnn nfnn by simp
  obtain mags where m: "compute_magnitudes waveform window frame_length hop_length opts
      frame_length nb nf nf = Inr mags"
    using compute_magnitudes_ok [OF f prod] by blast
  obtain t where t: "mel_project opts nb nf nf (apply_power opts mags) = Inr t"
    using mel_project_ok [OF assms(7,9)] by blast
  show ?thesis
    using assms m t
    by (simp add: spectrogram_def Let_def frame_dims_def nb_def [symmetric] nf_def [symmetric])
qed

lemma spectrogram_no_mel_valid:
  assumes "alen window = frame_length" "0 < hop_length" "\<not> o_center opts"
    and "o_fft_length opts = None" "2 \<le> frame_length" "frame_length \<le> 2 ^ 28"
    and "o_mel_filters opts = None"
    and "o_min_num_frames opts = None" "o_max_num_frames opts = None"
    and "frame_length \<le> alen waveform + hop_length"
  shows "spectrogram waveform window frame_length hop_length opts
           = Inl (Error ''mel_filters must be provided'')"
proof -
  obtain f where f: "FFT_new frame_length = Inr f" "0 \<le> outputBufferSize f"
    using FFT_new_ok assms(5,6) by blast
  define nb where "nb = (if o_onesided opts then \<lfloor>real_of_int frame_length / 2\<rfloor> + 1 else frame_length)"
  define nf where "nf = num_frames_of (alen waveform) frame_length hop_length None"
  have nbnn: "0 \<le> nb" using assms(5) by (simp add: nb_def)
  have nfnn: "0 \<le> nf"
    unfolding nf_def by (rule num_frames_nonneg) fact+
  have prod: "0 \<le> nb * nf" using nbnn nfnn by simp
  obtain mags where m: "compute_magnitudes waveform window frame_length hop_length opts
      frame_length nb nf nf = Inr mags"
    using compute_magnitudes_ok [OF f prod] by blast
  show ?thesis
    using assms m
    by (simp add: spectrogram_def Let_def frame_dims_def nb_def [symmetric] nf_def [symmetric]
        mel_project_None)
qed

lemma not_isPowerOfTwo_3: "\<not> isPowerOfTwo 3"
  by (simp add: isPowerOfTwo_def js_and_def ToInt32_def)

section \<open>Lengths are kept by the transforms\<close>

lemma alen_singleTransform2 [simp]: "alen (singleTransform2 dat out outOff off step) = alen out"
  by (simp add: singleTransform2_def Let_def)

lemma alen_singleTransform4 [simp]: "alen (singleTransform4 dat out outOff off step iv) = alen out"
  by (simp add: singleTransform4_def Let_def)

lemma alen_butterfly4 [simp]: "alen (butterfly4 tab iv q i k out) = alen out"
  by (simp add: butterfly4_def Let_def)

lemma alen_transform4_pass [simp]: "alen (transform4_pass tab sz iv step out) = alen out"
  by (simp add: transform4_pass_def Let_def alen_fold_keep)

lemma alen_transform4_passes [simp]: "alen (transform4_passes tab sz iv step out) = alen out"
proof (induction tab sz iv step out rule: transform4_passes.induct)
  case (1 tab sz iv step out)
  show ?case
  proof (cases "2 \<le> step")
    case True
    then have "transform4_passes tab sz iv step out =
        transform4_passes tab sz iv (js_sar step 2) (transform4_pass tab sz iv step out)"
      by (subst transform4_passes.simps) simp
    then show ?thesis using 1 True by simp
  next
    case False
    then have "transform4_passes tab sz iv step out = out"
      by (subst transform4_passes.simps) simp
    then show ?thesis by simp
  qed
qed

lemma alen_transform4 [simp]: "alen (transform4 p out dat iv) = alen out"
  by (simp add: transform4_def Let_def alen_fold_keep)

lemma alen_scale_step [simp]: "alen (scale_step sz m out) = alen out"
  by (simp add: scale_step_def)

lemma alen_inverseTransform_bufs [simp]: "alen (inverseTransform_bufs p out dat) = alen out"
  by (simp add: inverseTransform_bufs_def Let_def alen_fold_keep)

lemma alen_output_step [simp]: "alen (output_step ob3 sb a m output) = alen output"
  by (simp add: output_step_def Let_def)

section \<open>The chirp buffers\<close>

lemma alen_fst_chirp_step [simp]: "alen (fst (chirp_step n r i m st)) = alen (fst st)"
  by (simp add: chirp_step_def Let_def)

lemma alen_fst_chirp_fold: "alen (fst (fold (chirp_step n r i) ms st)) = alen (fst st)"
  by (induction ms arbitrary: st) simp_all

lemma alen_subarray:
  assumes "0 \<le> a" "a \<le> b" "b \<le> alen xs"
  shows "alen (subarray xs a b) = b - a"
  using assms by (simp add: subarray_def rel_index_def alen_def Let_def)

lemma times_NaN_right [simp]: "x * NaN = NaN"
  by (cases x) simp_all

lemma minus_NaN_left [simp]: "NaN - x = NaN"
  by (simp add: minus_jsnum_def)

lemma plus_NaN_right [simp]: "x + NaN = NaN"
  by (cases x) simp_all

lemma aget_beyond: "alen xs \<le> i \<Longrightarrow> aget xs i = NaN"
  by (simp add: aget_def)

text \<open>The last loop of \<open>_transform\<close>: what it leaves at an index.\<close>


lemma aget_output_step:
  "aget (output_step ob3 sb a m out) i =
     (if 0 \<le> i \<and> i < alen out \<and> i div 2 = int m then output_at ob3 sb a i else aget out i)"
proof -
  consider "i = 2 * int m" | "i = 2 * int m + 1" | "i div 2 \<noteq> int m" by linarith
  then show ?thesis
  proof cases
    case 1
    then show ?thesis
      by (simp add: output_step_def Let_def aget_aset output_at_def)
  next
    case 2
    then have ev: "odd i" by simp
    have d: "i div 2 = int m" using 2 by simp
    have e: "i - 1 = 2 * int m" using 2 by simp
    have c: "2 * int m + a + 1 = 2 * int m + 1 + a" by simp
    show ?thesis
      unfolding output_step_def Let_def asets_Cons asets_Nil fst_conv snd_conv aget_aset alen_aset
      using ev d by (simp add: output_at_def e 2 c)
  next
    case 3
    then have "i \<noteq> 2 * int m" "i \<noteq> 2 * int m + 1" by auto
    then show ?thesis
      using 3 by (simp add: output_step_def Let_def aget_aset)
  qed
qed

lemma aget_output_fold:
  "aget (fold (output_step ob3 sb a) [0..<n] output) i =
     (if 0 \<le> i \<and> i < alen output \<and> i div 2 < int n then output_at ob3 sb a i
      else aget output i)"
proof (induction n)
  case 0
  show ?case by auto
next
  case (Suc n)
  have alen: "alen (fold (output_step ob3 sb a) [0..<n] output) = alen output"
    by (simp add: alen_fold_keep)
  have st: "fold (output_step ob3 sb a) [0..<Suc n] output =
          output_step ob3 sb a n (fold (output_step ob3 sb a) [0..<n] output)"
    by simp
  have lt: "(i div 2 < int (Suc n)) = (i div 2 < int n \<or> i div 2 = int n)"
    by auto
  show ?case
    unfolding st aget_output_step alen Suc.IH lt by auto
qed

lemma NP2FFT_new_shape:
  assumes "NP2FFT_new n = Inr p"
  shows "alen (np2_slicedChirpBuffer p) = 2 * n"
    and "2 * (2 * n - 1) \<le> np2_bufferSize p"
    and "alen (np2_outBuffer2 p) = np2_bufferSize p"
    and "np2_a p = 2 * (n - 1)"
    and "1 \<le> n"
    and "even (np2_bufferSize p)"
proof -
  define b where "b = 2 * (2 * n - 1)"
  have bnn: "0 \<le> b"
    using assms unfolding NP2FFT_new_def Let_def b_def [symmetric] by (simp split: if_splits)
  then show n1: "1 \<le> n" by (simp add: b_def)
  obtain f where f: "P2FFT_new (js_sar (int (next_pow2 (nat b))) 1) = Inr f"
    using assms bnn unfolding NP2FFT_new_def Let_def b_def [symmetric]
    by (simp split: sum.splits)
  have p: "p = \<lparr> np2_f = f,
                 np2_bufferSize = int (next_pow2 (nat b)),
                 np2_a = 2 * (n - 1),
                 np2_chirpBuffer = transform4 f (zeros (int (next_pow2 (nat b))))
                    (snd (fold (chirp_step n (cos (- 2 * pi / real_of_int n)) (sin (- 2 * pi / real_of_int n)))
                            (iters 0 (js_sar b 1) 1) (zeros b, zeros (int (next_pow2 (nat b))))))
                    (Num 1),
                 np2_buffer1 = zeros (int (next_pow2 (nat b))),
                 np2_buffer2 = zeros (int (next_pow2 (nat b))),
                 np2_outBuffer1 = zeros (int (next_pow2 (nat b))),
                 np2_outBuffer2 = zeros (int (next_pow2 (nat b))),
                 np2_slicedChirpBuffer =
                   subarray (fst (fold (chirp_step n (cos (- 2 * pi / real_of_int n)) (sin (- 2 * pi / real_of_int n)))
                            (iters 0 (js_sar b 1) 1) (zeros b, zeros (int (next_pow2 (nat b))))))
                     (2 * (n - 1)) b \<rparr>"
    using assms bnn f unfolding NP2FFT_new_def Let_def b_def [symmetric] by simp
  have "nat b \<le> next_pow2 (nat b)"
    using next_pow2_props [of "nat b"] by auto
  then have "b \<le> int (next_pow2 (nat b))"
    using bnn by linarith
  moreover have "np2_bufferSize p = int (next_pow2 (nat b))"
    by (simp add: p)
  ultimately show "2 * (2 * n - 1) \<le> np2_bufferSize p"
    by (simp add: b_def)
  obtain j where j: "next_pow2 (nat b) = 2 ^ j" "nat b \<le> 2 ^ j"
    using next_pow2_props [of "nat b"] by blast
  have "2 \<le> nat b" using n1 by (simp add: b_def)
  with j(2) have "j \<noteq> 0" by (cases j) simp_all
  then have "even (next_pow2 (nat b))" using j(1) by simp
  then show "even (np2_bufferSize p)" by (simp add: p)
  show "alen (np2_outBuffer2 p) = np2_bufferSize p" by (simp add: p)
  show "np2_a p = 2 * (n - 1)" by (simp add: p)
  have "alen (np2_slicedChirpBuffer p) = b - 2 * (n - 1)"
    unfolding p using n1 bnn
    by (simp add: alen_subarray alen_fst_chirp_fold b_def)
  then show "alen (np2_slicedChirpBuffer p) = 2 * n" by (simp add: b_def)
qed

section \<open>A waveform of two zeros, evaluated\<close>

lemma Num_minus [simp]: "Num a - Num b = Num (a - b)"
  by (simp add: minus_jsnum_def)

lemma upt_1 [simp]: "[0..<1] = [0]" by (simp add: upt_conv_Cons)
lemma upt_2 [simp]: "[0..<2] = [0, 1]" by (simp add: upt_conv_Cons)

lemma iters_014: "iters 0 4 4 = [0]" by (simp add: iters_def)
lemma iters_011: "iters 0 1 1 = [0]" by (simp add: iters_def)
lemma iters_021: "iters 0 2 1 = [0, 1]" by (simp add: iters_def)
lemma iters_012: "iters 0 1 2 = [0]" by (simp add: iters_def)
lemma iters_222: "iters 2 2 2 = []" by (simp add: iters_def)

lemma bitrev_entry_1_0: "bitrev_entry 1 0 = 0"
  by (simp add: bitrev_entry_def iters_012 Let_def js_or_def js_shl_def js_and_def js_shr_def
      ToInt32_def ToUint32_def)

lemma js_shl_1_1: "js_shl 1 1 = 2" by (simp add: js_shl_def ToInt32_def)
lemma js_shl_2_1: "js_shl 2 1 = 4" by (simp add: js_shl_def ToInt32_def)
lemma js_shr_2_1: "js_shr 2 1 = 1" by (simp add: js_shr_def ToUint32_def)
lemma js_shr_4_1: "js_shr 4 1 = 2" by (simp add: js_shr_def ToUint32_def)
lemma js_shr_0_1: "js_shr 0 1 = 0" by (simp add: js_shr_def ToUint32_def)
lemma js_sar_2_2: "js_sar 2 2 = 0" by (simp add: js_sar_def ToInt32_def)
lemma js_shl_0_1: "js_shl 0 1 = 0" by (simp add: js_shl_def ToInt32_def)

lemma iget_bitrev_1_0: "iget (bitrev_table 1) 0 = Some 0"
  by (simp add: iget_def bitrev_table_def js_shl_1_1 alen_def bitrev_entry_1_0 upt_conv_Cons)


lemma P2FFT_new_2: "P2FFT_new 2 = Inr plan2"
  using P2FFT_new_pow2 [of 1] by (simp add: plan2_def p2_width_of_def)

lemma isPowerOfTwo_2: "isPowerOfTwo 2"
  using isPowerOfTwo_pow2 [of 1] by simp

lemma FFT_new_2:
  "FFT_new 2 = Inr \<lparr> fft_fft_length = 2, fft_isPowerOfTwo = True, fft_plan = P2 plan2,
                      outputBufferSize = 4 \<rparr>"
  by (simp add: FFT_new_def isPowerOfTwo_2 P2FFT_new_2)

lemma realTransform4_plan2:
  "realTransform4 plan2 out dat iv =
     asets out [(0, aget dat 0 + aget dat 1), (1, Num 0), (2, aget dat 0 - aget dat 1), (3, Num 0)]"
proof -
  have "realTransform4_passes (p2_table plan2) 4 iv 0 x = x" for x
    by (subst realTransform4_passes.simps) simp
  then show ?thesis
    by (simp add: realTransform4_def plan2_def Let_def js_shl_1_1 js_shl_2_1 iters_014
        iget_bitrev_1_0 shr1_def js_shr_0_1 js_shr_2_1 js_sar_2_2 js_shr_4_1 iters_222
        singleRealTransform2_def)
qed

lemma pow_fin_0_2: "pow_fin 0 2 = Num 0"
  by (simp add: pow_fin_def)

lemma aget_Cons_0 [simp]: "aget (x # xs) 0 = x"
  by (simp add: aget_def alen_def)

lemma aget_Cons_1 [simp]: "aget (x # y # xs) 1 = y"
  by (simp add: aget_def alen_def)

lemma aset_Cons_0 [simp]: "aset (x # xs) 0 v = v # xs"
  by (simp add: aset_def alen_def)

lemma aset_Cons_1 [simp]: "aset (x # y # xs) 1 v = x # v # xs"
  by (simp add: aset_def alen_def)

lemma aset_Cons_2 [simp]: "aset (x # y # z # xs) 2 v = x # y # v # xs"
  by (simp add: aset_def alen_def numeral_2_eq_2)

lemma aset_Cons_3 [simp]: "aset (x # y # z # u # xs) 3 v = x # y # z # v # xs"
  by (simp add: aset_def alen_def numeral_3_eq_3)

lemma aget_Cons_2 [simp]: "aget (x # y # z # xs) 2 = z"
  by (simp add: aget_def alen_def numeral_2_eq_2)

lemma aget_Cons_3 [simp]: "aget (x # y # z # u # xs) 3 = u"
  by (simp add: aget_def alen_def numeral_3_eq_3)

lemma zeros_2: "zeros 2 = [Num 0, Num 0]"
  by (simp add: zeros_def numeral_2_eq_2)

lemma zeros_4: "zeros 4 = [Num 0, Num 0, Num 0, Num 0]"
  by (simp add: zeros_def numeral_eq_Suc)

lemma zeros_1: "zeros 1 = [Num 0]"
  by (simp add: zeros_def)

lemma fill_frame_zero2:
  assumes "\<not> o_remove_dc_offset opts" "o_preemphasis opts = None"
  shows "fill_frame [Num 0, Num 0] [Num 1, Num 1] 2 1 opts 0 [Num 0, Num 0] = [Num 0, Num 0]"
  using assms
  by (simp add: fill_frame_def Let_def alen_def iters_021)

lemma compute_magnitudes_zero2:
  assumes "\<not> o_remove_dc_offset opts" "o_preemphasis opts = None"
  shows "compute_magnitudes [Num 0, Num 0] [Num 1, Num 1] 2 1 opts 2 2 1 1 = Inr [Num 0, Num 0]"
  using assms
  by (simp add: compute_magnitudes_def FFT_new_2 iters_011 frame_step_def Let_def zeros_2 zeros_4
      inputBuffer_ref_def outputBuffer_ref_def fill_frame_zero2
      FFT_realTransform_def P2FFT_realTransform_def realTransform4_plan2
      iters_021 magnitudes_step_def js_shl_0_1 js_shl_1_1 pow_fin_0_2)

lemma compute_magnitudes_zero2_pad:
  assumes "\<not> o_remove_dc_offset opts" "o_preemphasis opts = None"
  shows "compute_magnitudes [Num 0, Num 0] [Num 1, Num 1] 2 1 opts 2 2 1 2
           = Inr [Num 0, Num 0, Num 0, Num 0]"
  using assms
  by (simp add: compute_magnitudes_def FFT_new_2 iters_011 frame_step_def Let_def zeros_2 zeros_4
      inputBuffer_ref_def outputBuffer_ref_def fill_frame_zero2
      FFT_realTransform_def P2FFT_realTransform_def realTransform4_plan2
      iters_021 magnitudes_step_def js_shl_0_1 js_shl_1_1 pow_fin_0_2)


lemma num_frames_2_2_1: "num_frames_of 2 2 1 None = 1"
  by (simp add: num_frames_of_None)

lemma apply_power_zero2:
  "o_power opts = Some 1 \<Longrightarrow> apply_power opts [Num 0, Num 0] = [Num 0, Num 0]"
  by (simp add: apply_power_def Let_def alen_def iters_021 pow_fin_0_2)

lemma matmul_mel1_zero:
  "matmul \<lparr> tdata = [Num 1, Num 1], rows = 1, cols = 2 \<rparr> \<lparr> tdata = [Num 0, Num 0], rows = 2, cols = 1 \<rparr>
     = \<lparr> tdata = [Num 0], rows = 1, cols = 1 \<rparr>"
  by (simp add: matmul_def dot_row_col_def)

lemma Math_max_floor_zero: "Math_max (Num (1 / 10000000000)) (Num 0) = Num (1 / 10000000000)"
  by (simp add: Math_max_def)

lemma db_of_floor:
  "db_conversion_helper [Num (1 / 10000000000)] 20 10 (1 / 10000000000) None = Inr [NaN]"
  by (simp add: db_conversion_helper_def Let_def Math_max_def alen_def iters_011)

lemma db_of_floor_range:
  "db_conversion_helper [Num (1 / 10000000000)] 20 10 (1 / 10000000000) (Some 80) = Inr [NaN]"
  by (simp add: db_conversion_helper_def Let_def Math_max_def alen_def iters_011 max_arr_def
      iters_def)




lemma iters_041: "iters 0 4 1 = [0, 1, 2, 3]"
  by (simp add: iters_def upt_conv_Cons)

lemma apply_power_zero4:
  "o_power opts = Some 1 \<Longrightarrow> apply_power opts [Num 0, Num 0, Num 0, Num 0] = [Num 0, Num 0, Num 0, Num 0]"
  by (simp add: apply_power_def Let_def alen_def iters_041 pow_fin_0_2)

lemma matmul_mel1_zero_pad:
  "matmul \<lparr> tdata = [Num 1, Num 1], rows = 1, cols = 2 \<rparr>
          \<lparr> tdata = [Num 0, Num 0, Num 0, Num 0], rows = 2, cols = 2 \<rparr>
     = \<lparr> tdata = [Num 0, Num 0], rows = 1, cols = 2 \<rparr>"
  by (simp add: matmul_def dot_row_col_def)

lemma spectrogram_pad_example:
  "spectrogram [Num 0, Num 0] [Num 1, Num 1] 2 1 pad_options
     = Inr \<lparr> tdata = [Num (1 / 10 ^ 10), Num (1 / 10 ^ 10)], rows = 1, cols = 2 \<rparr>"
  by (simp add: spectrogram_def pad_options_def default_options_def Let_def alen_def
      num_frames_2_2_1 frame_dims_def compute_magnitudes_zero2_pad apply_power_zero4
      mel_project_def matmul_mel1_zero_pad mel1_def iters_021
      Math_max_floor_zero apply_log_mel_def)

section \<open>Loops that rewrite an array in place\<close>

lemma fold_aset_self_take:
  "n \<le> length xs \<Longrightarrow>
     fold (\<lambda>m a. aset a (int m) (g (aget a (int m)))) [0..<n] xs = map g (take n xs) @ drop n xs"
proof (induction n)
  case 0
  show ?case by simp
next
  case (Suc n)
  then have n: "n < length xs" by simp
  let ?a = "map g (take n xs) @ drop n xs"
  have len: "length ?a = length xs" using n by simp
  have get: "aget ?a (int n) = xs ! n"
    using n by (simp add: aget_def alen_def nth_append)
  have "aset ?a (int n) (g (xs ! n)) = ?a[n := g (xs ! n)]"
    using n by (simp add: aset_def alen_def)
  also have "\<dots> = map g (take n xs) @ (drop n xs)[0 := g (xs ! n)]"
    using n by (simp add: list_update_append)
  also have "(drop n xs)[0 := g (xs ! n)] = g (xs ! n) # drop (Suc n) xs"
    using n by (simp add: Cons_nth_drop_Suc [symmetric])
  also have "map g (take n xs) @ g (xs ! n) # drop (Suc n) xs = map g (take (Suc n) xs) @ drop (Suc n) xs"
    using n by (simp add: take_Suc_conv_app_nth)
  finally have step: "aset ?a (int n) (g (xs ! n)) = map g (take (Suc n) xs) @ drop (Suc n) xs" .
  have "fold (\<lambda>m a. aset a (int m) (g (aget a (int m)))) [0..<Suc n] xs =
        aset ?a (int n) (g (aget ?a (int n)))"
    using Suc by simp
  then show ?case by (simp only: get step)
qed

lemma fold_aset_self:
  "fold (\<lambda>m a. aset a (int m) (g (aget a (int m)))) (iters 0 (alen xs) 1) xs = map g xs"
  using fold_aset_self_take [of "length xs" xs g] by (simp add: iters_unit alen_def)

lemma aget_map:
  "0 \<le> i \<Longrightarrow> i < alen xs \<Longrightarrow> aget (map g xs) i = g (aget xs i)"
  by (simp add: aget_def alen_def)

lemma alen_map [simp]: "alen (map g xs) = alen xs"
  by (simp add: alen_def)

section \<open>Row-major matrices\<close>

lemma length_concat_uniform:
  "\<forall>r \<in> set rs. length r = n \<Longrightarrow> length (concat rs) = length rs * n"
  by (induction rs) simp_all

lemma nth_concat_uniform:
  "\<forall>r \<in> set rs. length r = n \<Longrightarrow> i < length rs \<Longrightarrow> j < n \<Longrightarrow>
     concat rs ! (i * n + j) = rs ! i ! j"
proof (induction rs arbitrary: i)
  case Nil
  then show ?case by simp
next
  case (Cons r rs)
  show ?case
  proof (cases i)
    case 0
    with Cons.prems show ?thesis by (simp add: nth_append)
  next
    case (Suc k)
    with Cons.prems have "concat rs ! (k * n + j) = rs ! k ! j"
      by (intro Cons.IH) simp_all
    moreover have "length r = n" using Cons.prems by simp
    ultimately show ?thesis using Suc by (simp add: nth_append)
  qed
qed

lemma index_lt:
  fixes i j n m :: nat
  assumes "i < m" "j < n"
  shows "i * n + j < m * n"
proof -
  have "i * n + j < i * n + n" using assms(2) by simp
  also have "\<dots> = Suc i * n" by simp
  also have "\<dots> \<le> m * n" using assms(1) by (intro mult_le_mono1) simp
  finally show ?thesis .
qed

lemma alen_table:
  "0 \<le> m \<Longrightarrow> 0 \<le> n \<Longrightarrow>
   alen (concat (map (\<lambda>a. map (\<lambda>b. g a b) [0..<nat n]) [0..<nat m])) = m * n"
proof -
  assume mn: "0 \<le> m" "0 \<le> n"
  let ?rs = "map (\<lambda>a. map (\<lambda>b. g a b) [0..<nat n]) [0..<nat m]"
  have u: "\<forall>r \<in> set ?rs. length r = nat n" by auto
  have "length (concat ?rs) = nat m * nat n"
    using length_concat_uniform [OF u] by simp
  then show ?thesis using mn by (simp add: alen_def nat_mult_distrib)
qed

lemma index_lt_int:
  fixes i j n m :: int
  assumes "0 \<le> i" "i < m" "0 \<le> j" "j < n"
  shows "i * n + j < m * n"
proof -
  have "i * n + j < i * n + n" using assms(4) by simp
  also have "\<dots> = (i + 1) * n" by (simp add: algebra_simps)
  also have "\<dots> \<le> m * n" using assms by (intro mult_right_mono) simp_all
  finally show ?thesis .
qed

lemma aget_table:
  assumes "0 \<le> i" "i < m" "0 \<le> j" "j < n"
  shows "aget (concat (map (\<lambda>a. map (\<lambda>b. g (int a) (int b)) [0..<nat n]) [0..<nat m])) (i * n + j) = g i j"
proof -
  let ?rs = "map (\<lambda>a. map (\<lambda>b. g (int a) (int b)) [0..<nat n]) [0..<nat m]"
  have u: "\<forall>r \<in> set ?rs. length r = nat n" by auto
  have len: "length (concat ?rs) = nat m * nat n"
    using length_concat_uniform [OF u] by simp
  have idx: "nat (i * n + j) = nat i * nat n + nat j"
    using assms by (simp add: nat_add_distrib nat_mult_distrib)
  have lt: "nat i * nat n + nat j < nat m * nat n"
    using assms by (intro index_lt) simp_all
  have "concat ?rs ! (nat i * nat n + nat j) = ?rs ! nat i ! nat j"
    using assms by (intro nth_concat_uniform [OF u]) simp_all
  also have "\<dots> = g i j" using assms by simp
  finally have nth: "concat ?rs ! (nat i * nat n + nat j) = g i j" .
  have nn: "0 \<le> i * n + j" using assms by simp
  have al: "alen (concat ?rs) = m * n"
    using assms by (intro alen_table) simp_all
  have "aget (concat ?rs) (i * n + j) = concat ?rs ! nat (i * n + j)"
    unfolding aget_def al using nn index_lt_int [OF assms] by simp
  then show ?thesis by (simp only: idx nth)
qed

lemma aget_matmul:
  assumes "0 \<le> i" "i < rows a" "0 \<le> j" "j < cols b"
  shows "aget (tdata (matmul a b)) (i * cols b + j) = dot_row_col a b i j"
  using aget_table [OF assms, of "dot_row_col a b"] by (simp add: matmul_def)

lemma aget_transpose10:
  assumes "0 \<le> i" "i < rows t" "0 \<le> j" "j < cols t"
  shows "aget (tdata (transpose10 t)) (j * rows t + i) = aget (tdata t) (i * cols t + j)"
  using aget_table [OF assms(3,4,1,2), of "\<lambda>j i. aget (tdata t) (i * cols t + j)"]
  by (simp add: transpose10_def)

section \<open>The magnitude buffer outside the computed frames\<close>

lemma padding_zero_zeros:
  assumes "0 \<le> nb * d1Max"
  shows "padding_zero nb d1 d1Max (zeros (nb * d1Max))"
proof -
  have "aget (zeros (nb * d1Max)) (l * d1Max + f) = Num 0"
    if "0 \<le> l" "l < nb" "0 \<le> f" "f < d1Max" for l f
  proof -
    have "l * d1Max + f < nb * d1Max" using that by (intro index_lt_int) simp_all
    moreover have "0 \<le> l * d1Max + f" using that by simp
    ultimately show ?thesis by (simp add: aget_zeros)
  qed
  then show ?thesis using assms by (simp add: padding_zero_def)
qed

lemma column_index_neq:
  fixes i f j l D :: int
  assumes "0 \<le> i" "i < f" "f < D" "j * D + i = l * D + f"
  shows False
proof -
  have a: "(j * D + i) mod D = i" using assms(1,2,3) by simp
  have b: "(l * D + f) mod D = f" using assms(1,2,3) by simp
  have "(j * D + i) mod D = (l * D + f) mod D" by (simp only: assms(4))
  then have "i = f" by (simp only: a b)
  then show False using assms(2) by simp
qed

lemma padding_zero_magnitudes_step:
  assumes "padding_zero nb d1 d1Max mags" "0 \<le> i" "i < d1"
  shows "padding_zero nb d1 d1Max (magnitudes_step outb d1Max i m mags)"
proof -
  have "aget (magnitudes_step outb d1Max i m mags) (l * d1Max + f) = Num 0"
    if "0 \<le> l" "l < nb" "d1 \<le> f" "0 \<le> f" "f < d1Max" for l f
  proof -
    have "int m * d1Max + i \<noteq> l * d1Max + f"
      using column_index_neq [of i f d1Max "int m" l] assms(2,3) that by auto
    then have "aget (magnitudes_step outb d1Max i m mags) (l * d1Max + f) = aget mags (l * d1Max + f)"
      by (simp add: magnitudes_step_def Let_def aget_aset)
    then show ?thesis using assms(1) that by (simp add: padding_zero_def)
  qed
  moreover have "alen (magnitudes_step outb d1Max i m mags) = alen mags"
    by (simp add: magnitudes_step_def Let_def)
  ultimately show ?thesis using assms(1) by (simp add: padding_zero_def)
qed

lemma state_padding_zero_frame_step:
  assumes "state_padding_zero nb d1 d1Max st" "int m < d1"
  shows "state_padding_zero nb d1 d1Max (frame_step wav win fl hop opts nb d1Max m st)"
proof (cases st)
  case (Inl e)
  then show ?thesis by (simp add: state_padding_zero_def)
next
  case (Inr s)
  obtain f h mags where s: "s = (f, h, mags)" using prod_cases3 by blast
  have pz: "padding_zero nb d1 d1Max mags"
    using assms(1) Inr s by (simp add: state_padding_zero_def)
  let ?h1 = "h(inputBuffer_ref := fill_frame wav win fl hop opts (int m) (h inputBuffer_ref))"
  show ?thesis
  proof (cases "FFT_realTransform f ?h1 outputBuffer_ref inputBuffer_ref")
    case (Inl e)
    then show ?thesis
      by (simp add: frame_step_def Inr s Let_def state_padding_zero_def)
  next
    case r: (Inr r)
    obtain f' h2 where r2: "r = (f', h2)" by (cases r) auto
    have "padding_zero nb d1 d1Max
            (fold (magnitudes_step (h2 outputBuffer_ref) d1Max (int m)) (iters 0 nb 1) mags)"
      by (rule fold_invariant [where P = "padding_zero nb d1 d1Max"])
        (use pz assms(2) in \<open>simp_all add: padding_zero_magnitudes_step\<close>)
    then show ?thesis
      using r r2 by (simp add: frame_step_def Inr s Let_def state_padding_zero_def)
  qed
qed

lemma compute_magnitudes_padding:
  assumes "compute_magnitudes wav win fl hop opts n nb d1 d1Max = Inr mags"
  shows "padding_zero nb d1 d1Max mags"
proof -
  from assms obtain fft where fft: "FFT_new n = Inr fft"
    by (simp add: compute_magnitudes_def split: sum.splits)
  from assms fft have nn: "0 \<le> nb * d1Max"
    by (simp add: compute_magnitudes_def split: if_splits)
  let ?init = "Inr (fft, (\<lambda>r. [])(inputBuffer_ref := zeros n,
                                    outputBuffer_ref := zeros (outputBufferSize fft)),
                    zeros (nb * d1Max))"
  have "state_padding_zero nb d1 d1Max
          (fold (frame_step wav win fl hop opts nb d1Max) (iters 0 d1 1) ?init)"
  proof (rule fold_invariant [where P = "state_padding_zero nb d1 d1Max"])
    show "state_padding_zero nb d1 d1Max ?init"
      using padding_zero_zeros [OF nn] by (simp add: state_padding_zero_def)
  next
    fix x a
    assume "x \<in> set (iters 0 d1 1)" "state_padding_zero nb d1 d1Max a"
    then show "state_padding_zero nb d1 d1Max (frame_step wav win fl hop opts nb d1Max x a)"
      by (intro state_padding_zero_frame_step) simp_all
  qed
  moreover obtain st where
    "fold (frame_step wav win fl hop opts nb d1Max) (iters 0 d1 1) ?init = Inr st"
    "mags = snd (snd st)"
    using assms fft nn by (simp add: compute_magnitudes_def split: if_splits sum.splits)
  ultimately show ?thesis by (simp add: state_padding_zero_def)
qed

lemma apply_power_map:
  "apply_power opts mags =
     (case o_power opts of
        None \<Rightarrow> mags
      | Some p \<Rightarrow> if p \<noteq> 2 then map (\<lambda>x. js_pow x (Num 2 / Num p)) mags else mags)"
proof (cases "o_power opts")
  case None
  then show ?thesis by (simp add: apply_power_def)
next
  case (Some p)
  show ?thesis
    using fold_aset_self [of "\<lambda>x. js_pow x (Num 2 / Num p)" mags] Some
    by (simp only: apply_power_def Let_def option.case)
qed

lemma js_pow_zero_pos: "0 < p \<Longrightarrow> js_pow (Num 0) (Num 2 / Num p) = Num 0"
  by (simp add: pow_fin_def)

lemma padding_zero_apply_power:
  assumes "padding_zero nb d1 d1Max mags" "o_power opts = Some p" "0 < p"
  shows "padding_zero nb d1 d1Max (apply_power opts mags)"
proof (cases "p = 2")
  case True
  then show ?thesis using assms by (simp add: apply_power_map)
next
  case False
  have "aget (map (\<lambda>x. js_pow x (Num 2 / Num p)) mags) (l * d1Max + f) = Num 0"
    if "0 \<le> l" "l < nb" "d1 \<le> f" "0 \<le> f" "f < d1Max" for l f
  proof -
    have z: "aget mags (l * d1Max + f) = Num 0"
      using assms(1) that by (simp add: padding_zero_def)
    have "l * d1Max + f < nb * d1Max" using that by (intro index_lt_int) simp_all
    moreover have "0 \<le> l * d1Max + f" using that by simp
    moreover have "alen mags = nb * d1Max" using assms(1) by (simp add: padding_zero_def)
    ultimately have "aget (map (\<lambda>x. js_pow x (Num 2 / Num p)) mags) (l * d1Max + f)
        = js_pow (aget mags (l * d1Max + f)) (Num 2 / Num p)"
      by (intro aget_map) simp_all
    then show ?thesis using z js_pow_zero_pos [OF assms(3)] by simp
  qed
  then show ?thesis
    using assms False by (simp add: apply_power_map padding_zero_def)
qed

lemma is_finE: "is_fin x \<Longrightarrow> (\<And>r. x = Num r \<Longrightarrow> P) \<Longrightarrow> P"
  by (cases x) (simp_all add: is_fin_def)

lemma dot_fold_zero:
  assumes "\<And>l. l < n \<Longrightarrow> is_fin (u l) \<and> v l = Num 0"
  shows "fold (\<lambda>l acc. acc + u l * v l) [0..<n] (Num 0) = Num 0"
  using assms
proof (induction n)
  case 0
  show ?case by simp
next
  case (Suc n)
  then have IH: "fold (\<lambda>l acc. acc + u l * v l) [0..<n] (Num 0) = Num 0" by simp
  from Suc.prems [of n] obtain r where "u n = Num r" "v n = Num 0"
    by (auto elim: is_finE)
  then show ?case using IH by simp
qed

lemma mel_filters_ok_entry:
  assumes "mel_filters_ok nb mf" "0 \<le> i" "i < alen mf" "0 \<le> l" "l < nb"
  shows "is_fin (aget (concat mf) (i * nb + l))"
proof -
  have u: "\<forall>r \<in> set mf. length r = nat nb"
    using assms(1) by (auto simp: mel_filters_ok_def alen_def)
  have len: "length (concat mf) = length mf * nat nb"
    by (rule length_concat_uniform [OF u])
  have idx: "nat (i * nb + l) = nat i * nat nb + nat l"
    using assms by (simp add: nat_add_distrib nat_mult_distrib)
  have i: "nat i < length mf" using assms by (simp add: alen_def)
  have l: "nat l < nat nb" using assms by simp
  have nth: "concat mf ! (nat i * nat nb + nat l) = mf ! nat i ! nat l"
    by (rule nth_concat_uniform [OF u i l])
  have "mf ! nat i \<in> set mf" using i by simp
  then have row: "alen (mf ! nat i) = nb" "\<forall>x \<in> set (mf ! nat i). is_fin x"
    using assms(1) by (auto simp: mel_filters_ok_def)
  have "length (mf ! nat i) = nat nb"
    using row(1) by (simp add: alen_def)
  then have "mf ! nat i ! nat l \<in> set (mf ! nat i)"
    using l by simp
  then have fin: "is_fin (mf ! nat i ! nat l)" using row(2) by blast
  have al: "alen (concat mf) = alen mf * nb"
    using len assms by (simp add: alen_def nat_mult_distrib)
  have "i * nb + l < alen mf * nb" using assms by (intro index_lt_int) simp_all
  moreover have "0 \<le> i * nb + l" using assms by simp
  ultimately have "aget (concat mf) (i * nb + l) = concat mf ! nat (i * nb + l)"
    by (simp add: aget_def al)
  then show ?thesis using fin by (simp only: idx nth)
qed

lemma mel_floor_map:
  "fold (\<lambda>m a. aset a (int m) (Math_max (Num fl) (aget a (int m)))) (iters 0 (alen xs) 1) xs
     = map (Math_max (Num fl)) xs"
  by (rule fold_aset_self [of "Math_max (Num fl)" xs])

lemma Math_max_floor_0: "Math_max (Num fl) (Num 0) = Num (max fl 0)"
  by (simp add: Math_max_def max_def)

lemma alen_matmul:
  "0 \<le> rows a \<Longrightarrow> 0 \<le> cols b \<Longrightarrow> alen (tdata (matmul a b)) = rows a * cols b"
  using alen_table [of "rows a" "cols b" "\<lambda>i j. dot_row_col a b (int i) (int j)"]
  by (simp add: matmul_def)

lemma alen_transpose10:
  "0 \<le> rows t \<Longrightarrow> 0 \<le> cols t \<Longrightarrow> alen (tdata (transpose10 t)) = cols t * rows t"
  using alen_table [of "cols t" "rows t" "\<lambda>j i. aget (tdata t) (int i * cols t + int j)"]
  by (simp add: transpose10_def)

lemma mel_project_padding:
  assumes mp: "mel_project opts nb d1 d1Max mags = Inr t"
    and mf: "o_mel_filters opts = Some mf" "mel_filters_ok nb mf"
    and pz: "padding_zero nb d1 d1Max mags"
    and lg: "o_log_mel opts = None"
    and i: "0 \<le> i" "i < alen mf" and f: "d1 \<le> f" "0 \<le> f" "f < d1Max"
  shows "tensor_at opts t i f = Num (max (o_mel_floor opts) 0)"
proof -
  define A where "A = \<lparr> tdata = concat mf, rows = alen mf, cols = nb \<rparr>"
  define B where "B = \<lparr> tdata = mags, rows = nb, cols = d1Max \<rparr>"
  define M where "M = matmul A B"
  define S where "S = (if o_transpose opts then transpose10 M else M)"
  have t: "t = S\<lparr> tdata := map (Math_max (Num (o_mel_floor opts))) (tdata S) \<rparr>"
    using mp mf(1) lg
    by (auto simp: mel_project_def Let_def apply_log_mel_def mel_floor_map
        A_def B_def M_def S_def)
  have rM: "rows M = alen mf" "cols M = d1Max" by (simp_all add: M_def matmul_def A_def B_def)
  have dot: "dot_row_col A B i f = Num 0"
  proof -
    have "is_fin (aget (concat mf) (i * nb + int l)) \<and> aget mags (int l * d1Max + f) = Num 0"
      if "l < nat nb" for l
    proof -
      have l: "0 \<le> int l" "int l < nb" using that by simp_all
      show ?thesis
        using mel_filters_ok_entry [OF mf(2) i l] pz l f by (simp add: padding_zero_def)
    qed
    then show ?thesis
      unfolding dot_row_col_def A_def B_def
      by (simp add: dot_fold_zero [of "nat nb" "\<lambda>l. aget (concat mf) (i * nb + int l)"
            "\<lambda>l. aget mags (int l * d1Max + f)"])
  qed
  have eM: "aget (tdata M) (i * d1Max + f) = Num 0"
    using aget_matmul [of i A f B] i f dot by (simp add: M_def A_def B_def)
  have d0: "0 \<le> d1Max" using f by simp
  have aM: "alen (tdata M) = alen mf * d1Max"
    using alen_matmul [of A B] d0 by (simp add: M_def A_def B_def)
  show ?thesis
  proof (cases "o_transpose opts")
    case True
    have S: "S = transpose10 M" using True by (simp add: S_def)
    have cS: "cols S = alen mf" by (simp add: S transpose10_def rM)
    have e: "aget (tdata S) (f * alen mf + i) = Num 0"
      using aget_transpose10 [of i M f] i f eM by (simp add: S rM)
    have aS: "alen (tdata S) = d1Max * alen mf"
      using alen_transpose10 [of M] d0 by (simp add: S rM)
    have lt: "f * alen mf + i < d1Max * alen mf"
      using i f by (intro index_lt_int) simp_all
    have nn: "0 \<le> f * alen mf + i" using i f by simp
    have "aget (map (Math_max (Num (o_mel_floor opts))) (tdata S)) (f * alen mf + i)
            = Math_max (Num (o_mel_floor opts)) (aget (tdata S) (f * alen mf + i))"
      using nn lt by (intro aget_map) (simp_all add: aS)
    then show ?thesis
      using True by (simp add: tensor_at_def t cS e Math_max_floor_0)
  next
    case False
    have S: "S = M" using False by (simp add: S_def)
    have lt: "i * d1Max + f < alen mf * d1Max"
      using i f by (intro index_lt_int) simp_all
    have nn: "0 \<le> i * d1Max + f" using i f by simp
    have "aget (map (Math_max (Num (o_mel_floor opts))) (tdata S)) (i * d1Max + f)
            = Math_max (Num (o_mel_floor opts)) (aget (tdata S) (i * d1Max + f))"
      using nn lt by (intro aget_map) (simp_all add: S aM)
    then show ?thesis
      using False by (simp add: tensor_at_def t S rM eM Math_max_floor_0)
  qed
qed

lemma padded_length_alt:
  "padded_length wav0 fl opts =
     (if o_center opts then alen wav0 + half_window_of fl opts + half_window_of fl opts
      else alen wav0)"
  by (simp add: padded_length_def Let_def half_window_of_def fft_length_of_def)

lemma spectrogram_Inr_parts:
  assumes "spectrogram wav0 win fl hop opts = Inr t"
  shows "\<exists>wav mags0.
           compute_magnitudes wav win fl hop opts (fft_length_of fl opts)
             (num_frequency_bins_of fl opts)
             (fst (frame_dims (computed_frames wav0 fl hop opts) (o_max_num_frames opts) (o_do_pad opts)))
             (snd (frame_dims (computed_frames wav0 fl hop opts) (o_max_num_frames opts) (o_do_pad opts)))
             = Inr mags0
         \<and> mel_project opts (num_frequency_bins_of fl opts)
             (fst (frame_dims (computed_frames wav0 fl hop opts) (o_max_num_frames opts) (o_do_pad opts)))
             (snd (frame_dims (computed_frames wav0 fl hop opts) (o_max_num_frames opts) (o_do_pad opts)))
             (apply_power opts mags0) = Inr t"
proof -
  define hw where "hw = half_window_of fl opts"
  define d where "d = (\<lambda>n. frame_dims (num_frames_of n fl hop (o_min_num_frames opts))
                            (o_max_num_frames opts) (o_do_pad opts))"
  define nb where "nb = num_frequency_bins_of fl opts"
  define fftl where "fftl = fft_length_of fl opts"
  have alt: "spectrogram wav0 win fl hop opts =
     (if fl > fftl then Inl (Error ''frame_length may not be larger than fft_length'')
      else if alen win \<noteq> fl then Inl (Error ''Length of the window must equal frame_length'')
      else if hop \<le> 0 then Inl (Error ''hop_length must be greater than zero'')
      else if o_power opts = None \<and> o_mel_filters opts \<noteq> None
      then Inl (Error ''You have provided mel_filters but power is None.'')
      else if o_center opts \<and> o_pad_mode opts \<noteq> ''reflect''
      then Inl (Error ''pad_mode not implemented yet.'')
      else (case (if o_center opts then padReflect wav0 hw hw else Inr wav0) of
              Inl e \<Rightarrow> Inl e
            | Inr wav \<Rightarrow>
                (case compute_magnitudes wav win fl hop opts fftl nb
                        (fst (d (alen wav))) (snd (d (alen wav))) of
                   Inl e \<Rightarrow> Inl e
                 | Inr mags0 \<Rightarrow>
                     mel_project opts nb (fst (d (alen wav))) (snd (d (alen wav)))
                       (apply_power opts mags0))))"
    unfolding spectrogram_def Let_def hw_def half_window_of_def d_def nb_def fftl_def
      fft_length_of_def num_frequency_bins_of_def
    by (rule refl)
  from assms obtain wav where
    pad: "(if o_center opts then padReflect wav0 hw hw else Inr wav0) = Inr wav"
    unfolding alt by (auto split: if_splits sum.splits)
  from assms pad obtain mags0 where
    cm: "compute_magnitudes wav win fl hop opts fftl nb (fst (d (alen wav))) (snd (d (alen wav)))
           = Inr mags0"
    and mp: "mel_project opts nb (fst (d (alen wav))) (snd (d (alen wav))) (apply_power opts mags0)
           = Inr t"
    unfolding alt by (auto split: if_splits sum.splits)
  have len: "alen wav = padded_length wav0 fl opts"
  proof (cases "o_center opts")
    case True
    with pad have "padReflect wav0 hw hw = Inr wav" by simp
    from alen_padReflect [OF this] show ?thesis
      using True by (simp add: padded_length_alt hw_def)
  next
    case False
    with pad show ?thesis by (simp add: padded_length_alt)
  qed
  have dd: "d (alen wav) = frame_dims (computed_frames wav0 fl hop opts)
                              (o_max_num_frames opts) (o_do_pad opts)"
    by (simp only: d_def len computed_frames_def)
  show ?thesis
    using cm mp unfolding dd nb_def fftl_def by blast
qed

section \<open>The claims\<close>

subsection \<open>C8: degenerate windows\<close>




subsection \<open>C5: the number of frames\<close>

text \<open>
  C5. Without \<open>min_num_frames\<close> and \<open>max_num_frames\<close>, every tensor that
  \<open>spectrogram\<close> returns has
  \<open>floor(1 + floor((padded_length - frame_length) / hop_length))\<close> frames; for a
  waveform of length 16000 with \<open>frame_length = 400\<close>, \<open>hop_length = 160\<close> and
  \<open>center = false\<close> that is 98 frames.
\<close>

theorem spectrogram_frame_count:
  assumes "spectrogram waveform window frame_length hop_length opts = Inr t"
    and "o_min_num_frames opts = None" and "o_max_num_frames opts = None"
  shows "tensor_frames opts t =
           \<lfloor>1 + real_of_int \<lfloor>real_of_int (padded_length waveform frame_length opts - frame_length)
                                 / real_of_int hop_length\<rfloor>\<rfloor>
         \<and> (alen waveform = 16000 \<and> frame_length = 400 \<and> hop_length = 160 \<and> \<not> o_center opts
              \<longrightarrow> tensor_frames opts t = 98)"
proof -
  have eq: "tensor_frames opts t =
      num_frames_of (padded_length waveform frame_length opts) frame_length hop_length None"
    using spectrogram_Inr_frames [OF assms(1)] assms(2,3) by (simp add: frame_dims_def)
  have a: "tensor_frames opts t =
           \<lfloor>1 + real_of_int \<lfloor>real_of_int (padded_length waveform frame_length opts - frame_length)
                                 / real_of_int hop_length\<rfloor>\<rfloor>"
    using eq by (simp add: num_frames_of_def)
  have b: "tensor_frames opts t = 98"
    if "alen waveform = 16000" "frame_length = 400" "hop_length = 160" "\<not> o_center opts"
    using eq that by (simp add: num_frames_of_None padded_length_def)
  from a b show ?thesis by blast
qed

text \<open>
  The call of the claim returns a tensor, for a waveform of 16000 zeros and an empty mel
  filter bank, and the tensor has 98 frames.
\<close>

theorem spectrogram_frame_count_witness:
  "\<exists>t. spectrogram (replicate 16000 (Num 0)) (replicate 400 (Num 1)) 400 160
          (default_options\<lparr> o_center := False, o_mel_filters := Some [] \<rparr>) = Inr t
       \<and> tensor_frames (default_options\<lparr> o_center := False, o_mel_filters := Some [] \<rparr>) t = 98"
proof -
  let ?opts = "default_options\<lparr> o_center := False, o_mel_filters := Some [] \<rparr>"
  let ?w = "replicate 16000 (Num 0)"
  have "\<exists>t. spectrogram ?w (replicate 400 (Num 1)) 400 160 ?opts = Inr t"
    by (rule spectrogram_ok [where mf = "[]"]) (simp_all add: default_options_def alen_def)
  then obtain t where t: "spectrogram ?w (replicate 400 (Num 1)) 400 160 ?opts = Inr t" ..
  have "tensor_frames ?opts t = 98"
    using spectrogram_frame_count [OF t] by (simp add: default_options_def alen_def)
  with t show ?thesis by blast
qed

subsection \<open>C2: no spectrogram without mel filters\<close>



subsection \<open>C4: the aliasing check\<close>



subsection \<open>C10: the tail of the arbitrary-size output\<close>



subsection \<open>C1: the decibel conversion\<close>

text \<open>
  C1, at a failing input. The waveform of two zeros, with a window of two ones,
  \<open>frame_length = 2\<close>, \<open>hop_length = 1\<close>, no centering, power 1, one mel filter
  \<open>[1, 1]\<close>, \<open>mel_floor = min_value = 1e-10\<close>, \<open>log_mel = dB\<close> and
  \<open>reference = 10\<close>: the claim gives the single element
  \<open>20 * log10(1e-10) - 20 * log10(10) = -220\<close>; the code returns \<open>NaN\<close>, the
  logarithm of \<open>1e-10 - log10(10)\<close>.
\<close>

theorem zero_waveform_db_is_NaN:
  "spectrogram [Num 0, Num 0] [Num 1, Num 1] 2 1 zero_db_options
     = Inr \<lparr> tdata = [NaN], rows = 1, cols = 1 \<rparr>"
  by (simp add: spectrogram_def zero_db_options_def default_options_def Let_def alen_def
      num_frames_2_2_1 frame_dims_def compute_magnitudes_zero2 apply_power_zero2
      mel_project_def matmul_mel1_zero mel1_def iters_011
      Math_max_floor_zero apply_log_mel_def amplitude_to_db_def db_of_floor)

subsection \<open>C6: the decibel range\<close>

text \<open>
  C6, at a failing input. The same call with \<open>db_range = 80\<close> returns the tensor
  whose only element is \<open>NaN\<close>: the difference between its maximum and its minimum
  is \<open>NaN\<close>, which is not at most 80.
\<close>

theorem zero_waveform_db_range_is_NaN:
  "spectrogram [Num 0, Num 0] [Num 1, Num 1] 2 1 (zero_db_options\<lparr> o_db_range := Some 80 \<rparr>)
     = Inr \<lparr> tdata = [NaN], rows = 1, cols = 1 \<rparr>"
  by (simp add: spectrogram_def zero_db_options_def default_options_def Let_def alen_def
      num_frames_2_2_1 frame_dims_def compute_magnitudes_zero2 apply_power_zero2
      mel_project_def matmul_mel1_zero mel1_def iters_011
      Math_max_floor_zero apply_log_mel_def amplitude_to_db_def db_of_floor_range)

subsection \<open>C9: the padded frames\<close>




end
